theory Spec2Isabelle
  imports Complex_Main
begin

section \<open>Rendering the report: \<open>render_html_content\<close>\<close>

text \<open>
  \<open>render_html_content\<close> (html.py, lines 16-1696) builds the page as one string. The model
  keeps its string literals byte for byte (UTF-8), its branches and its loops. A Python dict is
  a record whose fields are options: \<open>None\<close> is an absent key, \<open>d["k"]\<close> on an absent key
  raises \<open>KeyError\<close>, \<open>d.get("k", v)\<close> yields \<open>v\<close>.
\<close>

subsection \<open>Python values\<close>

datatype py_error = KeyError string

definition subscript :: "string \<Rightarrow> 'a option \<Rightarrow> py_error + 'a" where
  "subscript key v = (case v of None \<Rightarrow> Inl (KeyError key) | Some x \<Rightarrow> Inr x)"

definition dict_get :: "'a option \<Rightarrow> 'a \<Rightarrow> 'a" where
  "dict_get v d = (case v of None \<Rightarrow> d | Some x \<Rightarrow> x)"

definition err_bind :: "py_error + 'a \<Rightarrow> ('a \<Rightarrow> py_error + 'b) \<Rightarrow> py_error + 'b" where
  "err_bind r f = (case r of Inl e \<Rightarrow> Inl e | Inr v \<Rightarrow> f v)"

text \<open>
  A loop that appends to a string, one piece per iteration: the pieces are joined in order, and
  the first iteration that raises ends the loop with its error.
\<close>

fun join_results :: "(py_error + string) list \<Rightarrow> py_error + string" where
  "join_results [] = Inr []"
| "join_results (r # rs) =
     (case r of Inl e \<Rightarrow> Inl e
      | Inr s \<Rightarrow> (case join_results rs of Inl e \<Rightarrow> Inl e | Inr t \<Rightarrow> Inr (s @ t)))"

text \<open>\<open>str(n)\<close> and \<open>f"{n}"\<close> on integers.\<close>

definition digit_char :: "nat \<Rightarrow> char" where
  "digit_char n = ''0123456789'' ! n"

fun str_nat :: "nat \<Rightarrow> string" where
  "str_nat n = (if n < 10 then [digit_char n] else str_nat (n div 10) @ [digit_char (n mod 10)])"

definition str_int :: "int \<Rightarrow> string" where
  "str_int i = (if i < 0 then CHR ''-'' # str_nat (nat (- i)) else str_nat (nat i))"

text \<open>\<open>min(ranks)\<close> and \<open>max(ranks)\<close>; the source calls them on non-empty lists only.\<close>

fun list_min :: "int list \<Rightarrow> int" where
  "list_min [x] = x"
| "list_min (x # y # ys) = min x (list_min (y # ys))"

fun list_max :: "int list \<Rightarrow> int" where
  "list_max [x] = x"
| "list_max (x # y # ys) = max x (list_max (y # ys))"

text \<open>\<open>s.find(sub)\<close> (\<open>None\<close> for -1), \<open>sub in s\<close> and \<open>s.replace(old, new)\<close>.\<close>

fun str_find :: "string \<Rightarrow> string \<Rightarrow> nat option" where
  "str_find sub [] = (if sub = [] then Some 0 else None)"
| "str_find sub (c # cs) =
     (if take (length sub) (c # cs) = sub then Some 0 else map_option Suc (str_find sub cs))"

definition str_in :: "string \<Rightarrow> string \<Rightarrow> bool" where
  "str_in sub s \<longleftrightarrow> str_find sub s \<noteq> None"

function str_replace :: "string \<Rightarrow> string \<Rightarrow> string \<Rightarrow> string" where
  "str_replace old new [] = []"
| "str_replace old new (c # cs) =
     (if old \<noteq> [] \<and> take (length old) (c # cs) = old
      then new @ str_replace old new (drop (length old) (c # cs))
      else c # str_replace old new cs)"
  by pat_completeness auto
termination
  by (relation "measure (\<lambda>(old, new, s). length s)") (auto simp: neq_Nil_conv)

text \<open>A \<open>datetime\<close> value and \<open>strftime("%m-%d %H:%M")\<close>.\<close>

record datetime =
  dt_year :: nat
  dt_month :: nat
  dt_day :: nat
  dt_hour :: nat
  dt_minute :: nat
  dt_second :: nat

definition pad2 :: "nat \<Rightarrow> string" where
  "pad2 n = (if n < 10 then CHR ''0'' # str_nat n else str_nat n)"

definition strftime_md_hm :: "datetime \<Rightarrow> string" where
  "strftime_md_hm d =
     pad2 (dt_month d) @ ''-'' @ pad2 (dt_day d) @ '' '' @ pad2 (dt_hour d) @ '':'' @ pad2 (dt_minute d)"

subsection \<open>Input records\<close>

text \<open>
  One news record (\<open>title_data\<close>, \<open>item\<close>): the keys read anywhere in the module. The
  standalone items carry \<open>mobileUrl\<close>, the hot-list items \<open>mobile_url\<close>.
\<close>

record item =
  title :: "string option"
  url :: "string option"
  mobile_url :: "string option"
  mobileUrl :: "string option"
  source_name :: "string option"
  matched_keyword :: "string option"
  ranks :: "int list option"
  rank :: "int option"
  rank_threshold :: "int option"
  time_display :: "string option"
  first_time :: "string option"
  last_time :: "string option"
  count :: "int option"
  is_new :: "bool option"
  published_at :: "string option"
  author :: "string option"

text \<open>
  A keyword group of \<open>stats\<close>, \<open>rss_items\<close> and \<open>rss_new_items\<close> (keys \<open>word\<close>,
  \<open>count\<close>, \<open>titles\<close>), a source group of \<open>new_titles\<close> (keys \<open>source_name\<close>,
  \<open>titles\<close>) and a platform or feed of the standalone data (keys \<open>id\<close>, \<open>name\<close>,
  \<open>items\<close>). Field names are prefixed where the key is already a field of \<open>item\<close>.
\<close>

record stat =
  word :: "string option"
  stat_count :: "int option"
  titles :: "item list option"

record source_data =
  sd_source_name :: "string option"
  sd_titles :: "item list option"

record platform =
  pf_id :: "string option"
  pf_name :: "string option"
  items :: "item list option"

record standalone_data =
  platforms :: "platform list option"
  rss_feeds :: "platform list option"

record report =
  stats :: "stat list"
  new_titles :: "source_data list"
  failed_ids :: "string list"
  total_new_count :: int

record update =
  remote_version :: string
  current_version :: string

text \<open>
  What the module takes from outside: \<open>html_escape\<close> (trendradar.report.helpers),
  \<open>convert_time_for_display\<close> (trendradar.utils.time), \<open>render_ai_analysis_html_rich\<close>
  (trendradar.ai.formatter) and \<open>datetime.fromisoformat\<close> (\<open>None\<close> when it raises), and the
  two fixed texts of the page: \<open>page_head\<close> is the literal of lines 55-748 (document head,
  style sheet, start of the header), \<open>page_tail\<close> the literal of lines 1382-1696 (closing
  tags and the page script).
\<close>

record 'ai env =
  html_escape :: "string \<Rightarrow> string"
  convert_time_for_display :: "string \<Rightarrow> string"
  render_ai_analysis_html_rich :: "'ai \<Rightarrow> string"
  fromisoformat :: "string \<Rightarrow> datetime option"
  page_head :: string
  page_tail :: string

subsection \<open>Failed platforms (lines 797-807)\<close>

definition render_failed_ids :: "'ai env \<Rightarrow> string list \<Rightarrow> string" where
  \<open>render_failed_ids env ids =
     (if ids \<noteq> [] then
        (''\<newline>'' @
         ''                <div class="error-section">\<newline>'' @
         ''                    <div class="error-title">'' @
         [CHR 0xE2, CHR 0x9A, CHR 0xA0, CHR 0xEF, CHR 0xB8, CHR 0x8F] @ '' '' @
         [CHR 0xE8, CHR 0xAB, CHR 0x8B, CHR 0xE6, CHR 0xB1, CHR 0x82, CHR 0xE5, CHR 0xA4, CHR 0xB1, CHR 0xE6, CHR 0x95, CHR 0x97, CHR 0xE7, CHR 0x9A, CHR 0x84, CHR 0xE5, CHR 0xB9, CHR 0xB3, CHR 0xE5, CHR 0x8F, CHR 0xB0] @
         ''</div>\<newline>'' @
         ''                    <ul class="error-list">'')
        @ concat (map (\<lambda>id_value. ''<li class="error-item">'' @ html_escape env id_value @ ''</li>'') ids)
        @ (''\<newline>'' @
           ''                    </ul>\<newline>'' @
           ''                </div>'')
      else [])\<close>

subsection \<open>Hot-list section (lines 809-924)\<close>

text \<open>Lines 849-856: the source name in keyword mode, the keyword tag otherwise.\<close>

definition stats_source_html :: "'ai env \<Rightarrow> string \<Rightarrow> item \<Rightarrow> py_error + string" where
  \<open>stats_source_html env display_mode title_data =
     (if display_mode = ''keyword'' then
        err_bind (subscript ''source_name'' (source_name title_data))
          (\<lambda>name. Inr (''<span class="source-name">'' @ html_escape env name @ ''</span>''))
      else
        (let keyword = dict_get (matched_keyword title_data) [] in
         Inr (if keyword \<noteq> [] then ''<span class="keyword-tag">['' @ html_escape env keyword @ '']</span>'' else [])))\<close>

text \<open>Lines 866-871 and 873-876: tier class and display text of the rank badge.\<close>

definition stats_rank_class :: "int list \<Rightarrow> int \<Rightarrow> string" where
  "stats_rank_class rs threshold =
     (let min_rank = list_min rs in
      if min_rank \<le> 3 then ''top'' else if min_rank \<le> threshold then ''high'' else [])"

definition stats_rank_text :: "int list \<Rightarrow> string" where
  "stats_rank_text rs =
     (let min_rank = list_min rs; max_rank = list_max rs in
      if min_rank = max_rank then str_int min_rank
      else str_int min_rank @ ''-'' @ str_int max_rank)"

text \<open>Lines 859-878.\<close>

definition stats_rank_html :: "item \<Rightarrow> string" where
  \<open>stats_rank_html title_data =
     (let rs = dict_get (ranks title_data) [] in
      if rs \<noteq> [] then
        ''<span class="rank-num '' @ stats_rank_class rs (dict_get (rank_threshold title_data) 10)
        @ ''">'' @ stats_rank_text rs @ ''</span>''
      else [])\<close>

text \<open>Lines 881-891.\<close>

definition stats_time_html :: "'ai env \<Rightarrow> item \<Rightarrow> string" where
  \<open>stats_time_html env title_data =
     (let shown = dict_get (time_display title_data) [] in
      if shown \<noteq> [] then
        (let simplified_time =
               str_replace '']'' [] (str_replace ''['' [] (str_replace '' ~ '' ''~'' shown))
         in ''<span class="time-info">'' @ html_escape env simplified_time @ ''</span>'')
      else [])\<close>

text \<open>Lines 894-896.\<close>

definition stats_count_html :: "item \<Rightarrow> string" where
  \<open>stats_count_html title_data =
     (let count_info = dict_get (count title_data) 1 in
      if count_info > 1 then ''<span class="count-info">'' @ str_int count_info @ ([CHR 0xE6, CHR 0xAC, CHR 0xA1] @ ''</span>'') else [])\<close>

text \<open>
  Lines 904-910 and, with the same text, lines 970-976:
  \<open>link_url = title_data.get("mobile_url") or title_data.get("url", "")\<close>, then the title as
  a link when \<open>link_url\<close> is not empty and as plain text otherwise.
\<close>

definition news_link_url :: "item \<Rightarrow> string" where
  "news_link_url title_data =
     (case mobile_url title_data of
        Some m \<Rightarrow> if m \<noteq> [] then m else dict_get (url title_data) []
      | None \<Rightarrow> dict_get (url title_data) [])"

definition news_link_html :: "'ai env \<Rightarrow> item \<Rightarrow> string \<Rightarrow> string" where
  \<open>news_link_html env title_data escaped_title =
     (let link_url = news_link_url title_data in
      if link_url \<noteq> [] then
        ''<a href="'' @ html_escape env link_url @ ''" target="_blank" class="news-link">'' @ escaped_title @ ''</a>''
      else escaped_title)\<close>

text \<open>Lines 838-915: one news item of a word group, \<open>j\<close> its number.\<close>

definition render_news_item :: "'ai env \<Rightarrow> string \<Rightarrow> nat \<times> item \<Rightarrow> py_error + string" where
  \<open>render_news_item env display_mode numbered =
     (case numbered of (j, title_data) \<Rightarrow>
      (let new_class = (if dict_get (is_new title_data) False then ''new'' else []) in
       err_bind (stats_source_html env display_mode title_data) (\<lambda>source_html.
       err_bind (subscript ''title'' (title title_data)) (\<lambda>t.
         Inr ((''\<newline>'' @
               ''                    <div class="news-item '') @ new_class @ (''">\<newline>'' @
                                     ''                        <div class="news-number">'') @ str_nat j @ (''</div>\<newline>'' @
                                                           ''                        <div class="news-content">\<newline>'' @
                                                           ''                            <div class="news-header">'')
              @ source_html
              @ stats_rank_html title_data
              @ stats_time_html env title_data
              @ stats_count_html title_data
              @ (''\<newline>'' @
                 ''                            </div>\<newline>'' @
                 ''                            <div class="news-title">'')
              @ news_link_html env title_data (html_escape env t)
              @ (''\<newline>'' @
                 ''                            </div>\<newline>'' @
                 ''                        </div>\<newline>'' @
                 ''                    </div>''))))))\<close>

text \<open>Lines 814-918: one word group, \<open>i\<close> its number.\<close>

definition render_word_group ::
  "'ai env \<Rightarrow> string \<Rightarrow> nat \<Rightarrow> nat \<times> stat \<Rightarrow> py_error + string" where
  \<open>render_word_group env display_mode total_count numbered =
     (case numbered of (i, st) \<Rightarrow>
      err_bind (subscript ''count'' (stat_count st)) (\<lambda>cnt.
      (let count_class = (if cnt \<ge> 10 then ''hot'' else if cnt \<ge> 5 then ''warm'' else []) in
       err_bind (subscript ''word'' (word st)) (\<lambda>w.
       err_bind (subscript ''titles'' (titles st)) (\<lambda>ts.
       err_bind (join_results (map (render_news_item env display_mode) (enumerate 1 ts)))
         (\<lambda>items_html.
           Inr ((''\<newline>'' @
                 ''                <div class="word-group">\<newline>'' @
                 ''                    <div class="word-header">\<newline>'' @
                 ''                        <div class="word-info">\<newline>'' @
                 ''                            <div class="word-name">'') @ html_escape env w @ (''</div>\<newline>'' @
                                               ''                            <div class="word-count '') @ count_class @ ''">'' @ str_int cnt
                @ ('' '' @ [CHR 0xE6, CHR 0xA2, CHR 0x9D] @ ''</div>\<newline>'' @
                   ''                        </div>\<newline>'' @
                   ''                        <div class="word-index">'') @ str_nat i @ ''/'' @ str_nat total_count @ (''</div>\<newline>'' @
                                                                         ''                    </div>'')
                @ items_html
                @ (''\<newline>'' @
                   ''                </div>''))))))))\<close>

text \<open>Lines 810-924: all word groups, wrapped in the hot-list section when not empty.\<close>

definition render_stats_html :: "'ai env \<Rightarrow> string \<Rightarrow> stat list \<Rightarrow> py_error + string" where
  \<open>render_stats_html env display_mode sts =
     err_bind (join_results (map (render_word_group env display_mode (length sts)) (enumerate 1 sts)))
       (\<lambda>stats_html.
          Inr (if stats_html \<noteq> [] then (''\<newline>'' @
                                               ''                <div class="hotlist-section">'') @ stats_html @ (''\<newline>'' @
                                                                      ''                </div>'') else []))\<close>

subsection \<open>New-items section (lines 926-987)\<close>

text \<open>Lines 946-952 and 954-959: tier class and display text of the rank of a new item.\<close>

definition new_item_rank_class :: "item \<Rightarrow> string" where
  "new_item_rank_class title_data =
     (let rs = dict_get (ranks title_data) [] in
      if rs \<noteq> [] then
        (let min_rank = list_min rs in
         if min_rank \<le> 3 then ''top''
         else if min_rank \<le> dict_get (rank_threshold title_data) 10 then ''high''
         else [])
      else [])"

definition new_item_rank_text :: "item \<Rightarrow> string" where
  "new_item_rank_text title_data =
     (let rs = dict_get (ranks title_data) [] in
      if rs \<noteq> [] then
        (if length rs = 1 then str_int (rs ! 0)
         else str_int (list_min rs) @ ''-'' @ str_int (list_max rs))
      else ''?'')"

text \<open>Lines 942-981: one new item, \<open>idx\<close> its number.\<close>

definition render_new_item :: "'ai env \<Rightarrow> nat \<times> item \<Rightarrow> py_error + string" where
  \<open>render_new_item env numbered =
     (case numbered of (idx, title_data) \<Rightarrow>
      err_bind (subscript ''title'' (title title_data)) (\<lambda>t.
        Inr ((''\<newline>'' @
              ''                        <div class="new-item">\<newline>'' @
              ''                            <div class="new-item-number">'') @ str_nat idx @ (''</div>\<newline>'' @
                                      ''                            <div class="new-item-rank '') @ new_item_rank_class title_data @ ''">''
             @ new_item_rank_text title_data @ (''</div>\<newline>'' @
                                                ''                            <div class="new-item-content">\<newline>'' @
                                                ''                                <div class="new-item-title">'')
             @ news_link_html env title_data (html_escape env t)
             @ (''\<newline>'' @
                ''                                </div>\<newline>'' @
                ''                            </div>\<newline>'' @
                ''                        </div>''))))\<close>

text \<open>Lines 933-984: one source group.\<close>

definition render_new_source :: "'ai env \<Rightarrow> source_data \<Rightarrow> py_error + string" where
  \<open>render_new_source env sd =
     err_bind (subscript ''source_name'' (sd_source_name sd)) (\<lambda>name.
     err_bind (subscript ''titles'' (sd_titles sd)) (\<lambda>ts.
     err_bind (join_results (map (render_new_item env) (enumerate 1 ts))) (\<lambda>items_html.
       Inr ((''\<newline>'' @
             ''                    <div class="new-source-group">\<newline>'' @
             ''                        <div class="new-source-title">'') @ html_escape env name @ ('' '' @ [CHR 0xC2, CHR 0xB7] @ '' '') @ str_nat (length ts) @ ([CHR 0xE6, CHR 0xA2, CHR 0x9D] @ ''</div>'')
            @ items_html
            @ (''\<newline>'' @
               ''                    </div>'')))))\<close>

text \<open>Lines 927-987.\<close>

definition render_new_titles_html :: "'ai env \<Rightarrow> bool \<Rightarrow> report \<Rightarrow> py_error + string" where
  \<open>render_new_titles_html env show_new_section report_data =
     (if show_new_section \<and> new_titles report_data \<noteq> [] then
        err_bind (join_results (map (render_new_source env) (new_titles report_data)))
          (\<lambda>groups_html.
             Inr ((''\<newline>'' @
                   ''                <div class="new-section">\<newline>'' @
                   ''                    <div class="new-section-title">'' @
                   [CHR 0xE6, CHR 0x9C, CHR 0xAC, CHR 0xE6, CHR 0xAC, CHR 0xA1, CHR 0xE6, CHR 0x96, CHR 0xB0, CHR 0xE5, CHR 0xA2, CHR 0x9E, CHR 0xE7, CHR 0x86, CHR 0xB1, CHR 0xE9, CHR 0xBB, CHR 0x9E] @
                   '' ('' @ [CHR 0xE5, CHR 0x85, CHR 0xB1] @ '' '') @ str_int (total_new_count report_data) @ ('' '' @ [CHR 0xE6, CHR 0xA2, CHR 0x9D] @ '')</div>'')
                  @ groups_html
                  @ (''\<newline>'' @
                     ''                </div>'')))
      else Inr [])\<close>

subsection \<open>RSS section: \<open>render_rss_stats_html\<close> (lines 990-1086)\<close>

text \<open>Lines 1046-1079: one RSS item.\<close>

definition render_rss_item :: "'ai env \<Rightarrow> item \<Rightarrow> string" where
  \<open>render_rss_item env title_data =
     (let item_title = dict_get (title title_data) [];
          link = dict_get (url title_data) [];
          shown = dict_get (time_display title_data) [];
          name = dict_get (source_name title_data) [];
          fresh = dict_get (is_new title_data) False;
          escaped_title = html_escape env item_title
      in (''\<newline>'' @
          ''                        <div class="rss-item">\<newline>'' @
          ''                            <div class="rss-meta">'')
         @ (if shown \<noteq> [] then ''<span class="rss-time">'' @ html_escape env shown @ ''</span>'' else [])
         @ (if name \<noteq> [] then ''<span class="rss-author">'' @ html_escape env name @ ''</span>'' else [])
         @ (if fresh then ''<span class="rss-author" style="color: #dc2626;">NEW</span>'' else [])
         @ (''\<newline>'' @
            ''                            </div>\<newline>'' @
            ''                            <div class="rss-title">'')
         @ (if link \<noteq> [] then ''<a href="'' @ html_escape env link @ ''" target="_blank" class="rss-link">'' @ escaped_title @ ''</a>''
            else escaped_title)
         @ (''\<newline>'' @
            ''                            </div>\<newline>'' @
            ''                        </div>''))\<close>

text \<open>Lines 1031-1082: one keyword group; a group without titles is skipped.\<close>

definition render_feed_group :: "'ai env \<Rightarrow> stat \<Rightarrow> string" where
  \<open>render_feed_group env st =
     (let keyword = dict_get (word st) [];
          ts = dict_get (titles st) []
      in if ts = [] then []
         else (''\<newline>'' @
               ''                    <div class="feed-group">\<newline>'' @
               ''                        <div class="feed-header">\<newline>'' @
               ''                            <div class="feed-name">'') @ html_escape env keyword @ (''</div>\<newline>'' @
                                                    ''                            <div class="feed-count">'') @ str_nat (length ts) @ ('' '' @ [CHR 0xE6, CHR 0xA2, CHR 0x9D] @ ''</div>\<newline>'' @
                                                                                     ''                        </div>'')
              @ concat (map (render_rss_item env) ts)
              @ (''\<newline>'' @
                 ''                    </div>''))\<close>

definition render_rss_stats_html :: "'ai env \<Rightarrow> stat list \<Rightarrow> string \<Rightarrow> string" where
  \<open>render_rss_stats_html env sts section_title =
     (if sts = [] then []
      else
        (let total_count = sum_list (map (\<lambda>st. dict_get (stat_count st) 0) sts) in
         if total_count = 0 then []
         else (''\<newline>'' @
               ''                <div class="rss-section">\<newline>'' @
               ''                    <div class="rss-section-header">\<newline>'' @
               ''                        <div class="rss-section-title">'') @ section_title @ (''</div>\<newline>'' @
                                          ''                        <div class="rss-section-count">'') @ str_int total_count @ ('' '' @ [CHR 0xE6, CHR 0xA2, CHR 0x9D] @ ''</div>\<newline>'' @
                                                                           ''                    </div>'')
              @ concat (map (render_feed_group env) sts)
              @ (''\<newline>'' @
                 ''                </div>'')))\<close>

subsection \<open>Standalone section: \<open>render_standalone_html\<close> (lines 1089-1311)\<close>

text \<open>Lines 1191-1196 (and 1205-1210 for a single \<open>rank\<close>), and lines 1198-1201.\<close>

definition standalone_rank_class :: "int \<Rightarrow> string" where
  "standalone_rank_class min_rank =
     (if min_rank \<le> 3 then ''top'' else if min_rank \<le> 10 then ''high'' else [])"

definition standalone_rank_text :: "int list \<Rightarrow> string" where
  "standalone_rank_text rs =
     (let min_rank = list_min rs; max_rank = list_max rs in
      if min_rank = max_rank then str_int min_rank
      else str_int min_rank @ ''-'' @ str_int max_rank)"

text \<open>Lines 1186-1211.\<close>

definition standalone_rank_html :: "item \<Rightarrow> string" where
  \<open>standalone_rank_html it =
     (let rk = dict_get (rank it) 0;
          rs = dict_get (ranks it) []
      in if rs \<noteq> [] then
           ''<span class="rank-num '' @ standalone_rank_class (list_min rs) @ ''">'' @ standalone_rank_text rs
           @ ''</span>''
         else if rk > 0 then
           ''<span class="rank-num '' @ standalone_rank_class rk @ ''">'' @ str_int rk @ ''</span>''
         else [])\<close>

text \<open>Lines 1214-1220.\<close>

definition standalone_time_html :: "'ai env \<Rightarrow> item \<Rightarrow> string" where
  \<open>standalone_time_html env it =
     (let first = dict_get (first_time it) [];
          last = dict_get (last_time it) []
      in if first \<noteq> [] \<and> last \<noteq> [] \<and> first \<noteq> last then
           ''<span class="time-info">'' @ html_escape env (convert_time_for_display env first) @ ''~''
           @ html_escape env (convert_time_for_display env last) @ ''</span>''
         else if first \<noteq> [] then
           ''<span class="time-info">'' @ html_escape env (convert_time_for_display env first) @ ''</span>''
         else [])\<close>

text \<open>Lines 1223-1224.\<close>

definition standalone_count_html :: "item \<Rightarrow> string" where
  \<open>standalone_count_html it =
     (let cnt = dict_get (count it) 1 in
      if cnt > 1 then ''<span class="count-info">'' @ str_int cnt @ ([CHR 0xE6, CHR 0xAC, CHR 0xA1] @ ''</span>'') else [])\<close>

text \<open>
  Line 1172, \<open>url = item.get("url", "") or item.get("mobileUrl", "")\<close>, and lines 1231-1236.
\<close>

definition standalone_link_url :: "item \<Rightarrow> string" where
  "standalone_link_url it =
     (let u = dict_get (url it) [] in if u \<noteq> [] then u else dict_get (mobileUrl it) [])"

definition standalone_link_html :: "'ai env \<Rightarrow> item \<Rightarrow> string" where
  \<open>standalone_link_html env it =
     (let link = standalone_link_url it;
          escaped_title = html_escape env (dict_get (title it) [])
      in if link \<noteq> [] then
           ''<a href="'' @ html_escape env link @ ''" target="_blank" class="news-link">'' @ escaped_title @ ''</a>''
         else escaped_title)\<close>

text \<open>Lines 1170-1241: one item of a platform, \<open>j\<close> its number.\<close>

definition render_platform_item :: "'ai env \<Rightarrow> nat \<times> item \<Rightarrow> string" where
  \<open>render_platform_item env numbered =
     (case numbered of (j, it) \<Rightarrow>
        (''\<newline>'' @
         ''                        <div class="news-item">\<newline>'' @
         ''                            <div class="news-number">'') @ str_nat j @ (''</div>\<newline>'' @
                                ''                            <div class="news-content">\<newline>'' @
                                ''                                <div class="news-header">'')
        @ standalone_rank_html it
        @ standalone_time_html env it
        @ standalone_count_html it
        @ (''\<newline>'' @
           ''                                </div>\<newline>'' @
           ''                                <div class="news-title">'')
        @ standalone_link_html env it
        @ (''\<newline>'' @
           ''                                </div>\<newline>'' @
           ''                            </div>\<newline>'' @
           ''                        </div>''))\<close>

text \<open>Lines 1156-1244: one platform; a platform without items is skipped.\<close>

definition render_platform :: "'ai env \<Rightarrow> platform \<Rightarrow> string" where
  \<open>render_platform env p =
     (let platform_name = dict_get (pf_name p) (dict_get (pf_id p) []);
          its = dict_get (items p) []
      in if its = [] then []
         else (''\<newline>'' @
               ''                    <div class="standalone-group">\<newline>'' @
               ''                        <div class="standalone-header">\<newline>'' @
               ''                            <div class="standalone-name">'') @ html_escape env platform_name @ (''</div>\<newline>'' @
                                                          ''                            <div class="standalone-count">'') @ str_nat (length its) @ ('' '' @ [CHR 0xE6, CHR 0xA2, CHR 0x9D] @ ''</div>\<newline>'' @
                                                                                            ''                        </div>'')
              @ concat (map (render_platform_item env) (enumerate 1 its))
              @ (''\<newline>'' @
                 ''                    </div>''))\<close>

text \<open>
  Lines 1274-1282: the displayed time of a feed item. The bare \<open>except\<close> turns every failure
  of \<open>fromisoformat\<close> into the raw string.
\<close>

definition feed_time_display :: "'ai env \<Rightarrow> string \<Rightarrow> string" where
  \<open>feed_time_display env published =
     (if str_in ''T'' published then
        (case fromisoformat env (str_replace ''Z'' ''+00:00'' published) of
           Some dt_obj \<Rightarrow> strftime_md_hm dt_obj
         | None \<Rightarrow> published)
      else published)\<close>

text \<open>Lines 1273-1284.\<close>

definition feed_time_html :: "'ai env \<Rightarrow> item \<Rightarrow> string" where
  \<open>feed_time_html env it =
     (let published = dict_get (published_at it) [] in
      if published \<noteq> [] then
        ''<span class="time-info">'' @ html_escape env (feed_time_display env published) @ ''</span>''
      else [])\<close>

text \<open>Lines 1260-1304: one item of a feed, \<open>j\<close> its number.\<close>

definition render_feed_item :: "'ai env \<Rightarrow> nat \<times> item \<Rightarrow> string" where
  \<open>render_feed_item env numbered =
     (case numbered of (j, it) \<Rightarrow>
       (let link = dict_get (url it) [];
            writer = dict_get (author it) [];
            escaped_title = html_escape env (dict_get (title it) [])
        in (''\<newline>'' @
            ''                        <div class="news-item">\<newline>'' @
            ''                            <div class="news-number">'') @ str_nat j @ (''</div>\<newline>'' @
                                   ''                            <div class="news-content">\<newline>'' @
                                   ''                                <div class="news-header">'')
           @ feed_time_html env it
           @ (if writer \<noteq> [] then ''<span class="source-name">'' @ html_escape env writer @ ''</span>'' else [])
           @ (''\<newline>'' @
              ''                                </div>\<newline>'' @
              ''                                <div class="news-title">'')
           @ (if link \<noteq> [] then
                ''<a href="'' @ html_escape env link @ ''" target="_blank" class="news-link">'' @ escaped_title @ ''</a>''
              else escaped_title)
           @ (''\<newline>'' @
              ''                                </div>\<newline>'' @
              ''                            </div>\<newline>'' @
              ''                        </div>'')))\<close>

text \<open>Lines 1247-1307: one feed; a feed without items is skipped.\<close>

definition render_feed :: "'ai env \<Rightarrow> platform \<Rightarrow> string" where
  \<open>render_feed env feed =
     (let feed_name = dict_get (pf_name feed) (dict_get (pf_id feed) []);
          its = dict_get (items feed) []
      in if its = [] then []
         else (''\<newline>'' @
               ''                    <div class="standalone-group">\<newline>'' @
               ''                        <div class="standalone-header">\<newline>'' @
               ''                            <div class="standalone-name">'') @ html_escape env feed_name @ (''</div>\<newline>'' @
                                                      ''                            <div class="standalone-count">'') @ str_nat (length its) @ ('' '' @ [CHR 0xE6, CHR 0xA2, CHR 0x9D] @ ''</div>\<newline>'' @
                                                                                        ''                        </div>'')
              @ concat (map (render_feed_item env) (enumerate 1 its))
              @ (''\<newline>'' @
                 ''                    </div>''))\<close>

definition render_standalone_html :: "'ai env \<Rightarrow> standalone_data option \<Rightarrow> string" where
  \<open>render_standalone_html env data =
     (case data of
        None \<Rightarrow> []
      | Some d \<Rightarrow>
         (let ps = dict_get (platforms d) [];
              fs = dict_get (rss_feeds d) []
          in if ps = [] \<and> fs = [] then []
             else
               (let total_platform_items = sum_list (map (\<lambda>p. length (dict_get (items p) [])) ps);
                    total_rss_items = sum_list (map (\<lambda>f. length (dict_get (items f) [])) fs);
                    total_count = total_platform_items + total_rss_items
                in if total_count = 0 then []
                   else (''\<newline>'' @
                         ''                <div class="standalone-section">\<newline>'' @
                         ''                    <div class="standalone-section-header">\<newline>'' @
                         ''                        <div class="standalone-section-title">'' @
                         [CHR 0xE7, CHR 0x8D, CHR 0xA8, CHR 0xE7, CHR 0xAB, CHR 0x8B, CHR 0xE5, CHR 0xB1, CHR 0x95, CHR 0xE7, CHR 0xA4, CHR 0xBA, CHR 0xE5, CHR 0x8D, CHR 0x80] @
                         ''</div>\<newline>'' @
                         ''                        <div class="standalone-section-count">'') @ str_nat total_count @ ('' '' @ [CHR 0xE6, CHR 0xA2, CHR 0x9D] @ ''</div>\<newline>'' @
                                                          ''                    </div>'')
                        @ concat (map (render_platform env) ps)
                        @ concat (map (render_feed env) fs)
                        @ (''\<newline>'' @
                           ''                </div>''))))\<close>

subsection \<open>Assembling the regions (lines 1323-1363)\<close>

text \<open>
  \<open>region_contents\<close>: the rendered regions by name; \<open>new_items\<close> holds the pair of the
  hot-list delta and the RSS delta.
\<close>

record region_contents =
  hotlist :: string
  rss :: string
  new_items :: "string \<times> string"
  standalone :: string
  ai_analysis :: string

text \<open>\<open>region_contents.get(region, "")\<close> for a region other than \<open>new_items\<close>.\<close>

definition region_content :: "region_contents \<Rightarrow> string \<Rightarrow> string" where
  "region_content rc region =
     (if region = ''hotlist'' then hotlist rc
      else if region = ''rss'' then rss rc
      else if region = ''standalone'' then standalone rc
      else if region = ''ai_analysis'' then ai_analysis rc
      else [])"

text \<open>\<open>add_section_divider\<close> (lines 1332-1340).\<close>

definition add_section_divider :: "string \<Rightarrow> string" where
  \<open>add_section_divider content =
     (if content = [] \<or> \<not> str_in ''class="'' content then content
      else
        (case str_find ''class="'' content of
           Some first_class_pos \<Rightarrow>
             (let insert_pos = first_class_pos + length ''class="'' in
              take insert_pos content @ ''section-divider '' @ drop insert_pos content)
         | None \<Rightarrow> content))\<close>

text \<open>
  The step taken for one content string (lines 1349-1353, 1354-1358 and 1359-1363): a non-empty
  content is appended, with the divider class when something was appended before, and an empty
  one changes nothing. The state is \<open>html\<close> and \<open>has_previous_content\<close>.
\<close>

definition append_part :: "string \<Rightarrow> string \<times> bool \<Rightarrow> string \<times> bool" where
  "append_part content st =
     (case st of (html, has_previous_content) \<Rightarrow>
        if content \<noteq> [] then
          (html @ (if has_previous_content then add_section_divider content else content), True)
        else (html, has_previous_content))"

text \<open>The body of the loop over \<open>region_order\<close> (lines 1344-1363) and the loop.\<close>

definition assemble_region :: "region_contents \<Rightarrow> string \<Rightarrow> string \<times> bool \<Rightarrow> string \<times> bool" where
  "assemble_region rc region st =
     (if region = ''new_items'' then
        (case new_items rc of (new_html, rss_new) \<Rightarrow> append_part rss_new (append_part new_html st))
      else append_part (region_content rc region) st)"

definition assemble :: "region_contents \<Rightarrow> string list \<Rightarrow> string \<Rightarrow> string \<times> bool" where
  "assemble rc region_order html = fold (assemble_region rc) region_order (html, False)"

text \<open>
  The trace of the loop: the content strings it appends, in order, each with the value of
  \<open>has_previous_content\<close> at that moment, that is, whether \<open>add_section_divider\<close> is called
  on it.
\<close>

fun emitted :: "region_contents \<Rightarrow> string list \<Rightarrow> bool \<Rightarrow> (bool \<times> string) list" where
  "emitted rc [] has_previous_content = []"
| "emitted rc (region # regions) has_previous_content =
     (let parts = (if region = ''new_items'' then [fst (new_items rc), snd (new_items rc)]
                   else [region_content rc region]);
          appended = filter (\<lambda>content. content \<noteq> []) parts
      in (case appended of
            [] \<Rightarrow> emitted rc regions has_previous_content
          | p # ps \<Rightarrow>
              (has_previous_content, p) # map (\<lambda>content. (True, content)) ps
              @ emitted rc regions True))"

text \<open>
  The content strings the loop body looks at for one region (lines 1345-1363), and the
  non-empty ones among them over the whole of \<open>region_order\<close>, in the order in which the
  loop appends them: the content parts of the page.
\<close>

definition region_parts :: "region_contents \<Rightarrow> string \<Rightarrow> string list" where
  "region_parts rc region =
     (if region = ''new_items'' then [fst (new_items rc), snd (new_items rc)]
      else [region_content rc region])"

definition appended_parts :: "region_contents \<Rightarrow> string list \<Rightarrow> string list" where
  "appended_parts rc region_order =
     filter (\<lambda>content. content \<noteq> []) (concat (map (region_parts rc) region_order))"

text \<open>
  The number of positions of \<open>s\<close> at which \<open>sub\<close> occurs. For the divider marker, which
  cannot overlap itself, this is \<open>s.count(sub)\<close>.
\<close>

fun count_sub :: "string \<Rightarrow> string \<Rightarrow> nat" where
  "count_sub sub [] = 0"
| "count_sub sub (c # cs) =
     (if take (length sub) (c # cs) = sub then 1 else 0) + count_sub sub cs"

definition render_part :: "bool \<times> string \<Rightarrow> string" where
  "render_part p = (case p of (divided, content) \<Rightarrow>
     if divided then add_section_divider content else content)"

subsection \<open>The page (lines 50-53, 750-795, 1313-1385)\<close>

definition default_region_order :: "string list" where
  "default_region_order = [''hotlist'', ''rss'', ''new_items'', ''standalone'', ''ai_analysis'']"

text \<open>Line 767: \<open>sum(len(stat["titles"]) for stat in report_data["stats"])\<close>.\<close>

fun hot_news_count :: "stat list \<Rightarrow> py_error + nat" where
  "hot_news_count [] = Inr 0"
| "hot_news_count (st # sts) =
     err_bind (subscript ''titles'' (titles st)) (\<lambda>ts.
     err_bind (hot_news_count sts) (\<lambda>n. Inr (length ts + n)))"

text \<open>Lines 750-795: the header of the page, up to the opening of the content.\<close>

definition render_header :: "'ai env \<Rightarrow> string \<Rightarrow> int \<Rightarrow> nat \<Rightarrow> datetime \<Rightarrow> string" where
  \<open>render_header env mode total_titles hot now =
     page_head env
     @ (if mode = ''current'' then [CHR 0xE7, CHR 0x95, CHR 0xB6, CHR 0xE5, CHR 0x89, CHR 0x8D, CHR 0xE6, CHR 0xA6, CHR 0x9C, CHR 0xE5, CHR 0x96, CHR 0xAE]
        else if mode = ''incremental'' then [CHR 0xE5, CHR 0xA2, CHR 0x9E, CHR 0xE9, CHR 0x87, CHR 0x8F, CHR 0xE5, CHR 0x88, CHR 0x86, CHR 0xE6, CHR 0x9E, CHR 0x90]
        else [CHR 0xE5, CHR 0x85, CHR 0xA8, CHR 0xE5, CHR 0xA4, CHR 0xA9, CHR 0xE5, CHR 0x8C, CHR 0xAF, CHR 0xE7, CHR 0xB8, CHR 0xBD])
     @ (''</span>\<newline>'' @
        ''                    </div>\<newline>'' @
        ''                    <div class="info-item">\<newline>'' @
        ''                        <span class="info-label">'' @
        [CHR 0xE6, CHR 0x96, CHR 0xB0, CHR 0xE8, CHR 0x81, CHR 0x9E, CHR 0xE7, CHR 0xB8, CHR 0xBD, CHR 0xE6, CHR 0x95, CHR 0xB8] @
        ''</span>\<newline>'' @
        ''                        <span class="info-value">'')
     @ str_int total_titles @ ('' '' @ [CHR 0xE6, CHR 0xA2, CHR 0x9D])
     @ (''</span>\<newline>'' @
        ''                    </div>\<newline>'' @
        ''                    <div class="info-item">\<newline>'' @
        ''                        <span class="info-label">'' @
        [CHR 0xE7, CHR 0x86, CHR 0xB1, CHR 0xE9, CHR 0xBB, CHR 0x9E, CHR 0xE6, CHR 0x96, CHR 0xB0, CHR 0xE8, CHR 0x81, CHR 0x9E] @
        ''</span>\<newline>'' @
        ''                        <span class="info-value">'')
     @ str_nat hot @ ('' '' @ [CHR 0xE6, CHR 0xA2, CHR 0x9D])
     @ (''</span>\<newline>'' @
        ''                    </div>\<newline>'' @
        ''                    <div class="info-item">\<newline>'' @
        ''                        <span class="info-label">'' @
        [CHR 0xE7, CHR 0x94, CHR 0x9F, CHR 0xE6, CHR 0x88, CHR 0x90, CHR 0xE6, CHR 0x99, CHR 0x82, CHR 0xE9, CHR 0x96, CHR 0x93] @
        ''</span>\<newline>'' @
        ''                        <span class="info-value">'')
     @ strftime_md_hm now
     @ (''</span>\<newline>'' @
        ''                    </div>\<newline>'' @
        ''                </div>\<newline>'' @
        ''            </div>\<newline>'' @
        ''\<newline>'' @
        ''            <div class="content">'')\<close>

text \<open>Lines 1365-1385 and the rest of the page.\<close>

definition render_footer :: "'ai env \<Rightarrow> update option \<Rightarrow> string" where
  \<open>render_footer env update_info =
     (''\<newline>'' @
      ''            </div>\<newline>'' @
      ''\<newline>'' @
      ''            <div class="footer">\<newline>'' @
      ''                <div class="footer-content">\<newline>'' @
      ''                    '' @ [CHR 0xE7, CHR 0x94, CHR 0xB1] @
      '' <span class="project-name">TrendRadar</span> '' @
      [CHR 0xE7, CHR 0x94, CHR 0x9F, CHR 0xE6, CHR 0x88, CHR 0x90] @ '' '' @ [CHR 0xC2, CHR 0xB7] @
      ''\<newline>'' @
      ''                    <a href="https://github.com/sansan0/TrendRadar" target="_blank" class='' @
      ''"footer-link">\<newline>'' @
      ''                        GitHub '' @
      [CHR 0xE9, CHR 0x96, CHR 0x8B, CHR 0xE6, CHR 0xBA, CHR 0x90, CHR 0xE9, CHR 0xA0, CHR 0x85, CHR 0xE7, CHR 0x9B, CHR 0xAE] @
      ''\<newline>'' @
      ''                    </a>'')
     @ (case update_info of
          Some u \<Rightarrow> (''\<newline>'' @
                                ''                    <br>\<newline>'' @
                                ''                    <span style="color: #ea580c; font-weight: 500;">\<newline>'' @
                                ''                        '' @
                                [CHR 0xE7, CHR 0x99, CHR 0xBC, CHR 0xE7, CHR 0x8F, CHR 0xBE, CHR 0xE6, CHR 0x96, CHR 0xB0, CHR 0xE7, CHR 0x89, CHR 0x88, CHR 0xE6, CHR 0x9C, CHR 0xAC] @
                                '' '') @ remote_version u @ ([CHR 0xEF, CHR 0xBC, CHR 0x8C, CHR 0xE7, CHR 0x95, CHR 0xB6, CHR 0xE5, CHR 0x89, CHR 0x8D, CHR 0xE7, CHR 0x89, CHR 0x88, CHR 0xE6, CHR 0x9C, CHR 0xAC] @
                                                              '' '') @ current_version u @ (''\<newline>'' @
                                                                                             ''                    </span>'')
        | None \<Rightarrow> [])
     @ page_tail env\<close>

text \<open>Lines 1313-1330: the rendered regions.\<close>

definition rss_region :: "'ai env \<Rightarrow> stat list option \<Rightarrow> string \<Rightarrow> string" where
  "rss_region env rss_list section_title =
     (case rss_list of
        Some sts \<Rightarrow> if sts \<noteq> [] then render_rss_stats_html env sts section_title else []
      | None \<Rightarrow> [])"

definition ai_region :: "'ai env \<Rightarrow> 'ai option \<Rightarrow> string" where
  "ai_region env ai = (case ai of Some a \<Rightarrow> render_ai_analysis_html_rich env a | None \<Rightarrow> [])"

text \<open>Lines 1324-1330: \<open>region_contents\<close>.\<close>

definition build_region_contents ::
  "'ai env \<Rightarrow> string \<Rightarrow> string \<Rightarrow> stat list option \<Rightarrow> stat list option
     \<Rightarrow> standalone_data option \<Rightarrow> 'ai option \<Rightarrow> region_contents" where
  \<open>build_region_contents env stats_html new_titles_html rss_items rss_new_items standalone_data ai =
     \<lparr>hotlist = stats_html,
      rss = rss_region env rss_items (''RSS '' @
                                      [CHR 0xE8, CHR 0xA8, CHR 0x82, CHR 0xE9, CHR 0x96, CHR 0xB1, CHR 0xE6, CHR 0x9B, CHR 0xB4, CHR 0xE6, CHR 0x96, CHR 0xB0]),
      new_items = (new_titles_html, rss_region env rss_new_items (''RSS '' @
                                                                  [CHR 0xE6, CHR 0x96, CHR 0xB0, CHR 0xE5, CHR 0xA2, CHR 0x9E, CHR 0xE6, CHR 0x9B, CHR 0xB4, CHR 0xE6, CHR 0x96, CHR 0xB0])),
      standalone = render_standalone_html env standalone_data,
      ai_analysis = ai_region env ai\<rparr>\<close>

text \<open>
  \<open>render_html_content\<close>. The arguments follow the Python signature; \<open>datetime_now\<close> is what
  \<open>datetime.now()\<close> returns at the call, and \<open>get_time_func\<close>, when given, is represented by
  the value it returns.
\<close>

definition render_html_content ::
  "'ai env \<Rightarrow> datetime \<Rightarrow> report \<Rightarrow> int \<Rightarrow> string \<Rightarrow> update option \<Rightarrow> string list option
     \<Rightarrow> datetime option \<Rightarrow> stat list option \<Rightarrow> stat list option \<Rightarrow> string
     \<Rightarrow> standalone_data option \<Rightarrow> 'ai option \<Rightarrow> bool \<Rightarrow> py_error + string" where
  \<open>render_html_content env datetime_now report_data total_titles mode update_info region_order
       get_time_func rss_items rss_new_items display_mode standalone_data ai show_new_section =
     (let order = dict_get region_order default_region_order in
      err_bind (hot_news_count (stats report_data)) (\<lambda>hot.
      (let now = (case get_time_func of Some t \<Rightarrow> t | None \<Rightarrow> datetime_now);
           html = render_header env mode total_titles hot now
                  @ render_failed_ids env (failed_ids report_data)
       in err_bind (render_stats_html env display_mode (stats report_data)) (\<lambda>stats_html.
          err_bind (render_new_titles_html env show_new_section report_data) (\<lambda>new_titles_html.
          (let rc = build_region_contents env stats_html new_titles_html rss_items rss_new_items
                      standalone_data ai
           in Inr (fst (assemble rc order html) @ render_footer env update_info)))))))\<close>

subsection \<open>Values for examples\<close>

text \<open>
  The dict without keys, a report without content, and collaborators for evaluating examples:
  an escape function and a time conversion that leave their argument as it is (as the real ones
  do for text without markup characters and for \<open>HH:MM\<close> tokens), an AI formatter that
  returns the text it is given, an ISO parser, and short page texts. The parser covers the
  layout \<open>YYYY-MM-DD\<close>, one separator character, \<open>HH:MM:SS\<close> and an optional offset
  \<open>+HH:MM\<close> or \<open>-HH:MM\<close>; on the strings of this layout it accepts and rejects as
  \<open>datetime.fromisoformat\<close> does and returns the fields as written. It is used on strings
  of this layout only.
\<close>

definition digits_val :: "string \<Rightarrow> nat option" where
  "digits_val s =
     (if s \<noteq> [] \<and> list_all (\<lambda>c. 48 \<le> (of_char c :: nat) \<and> (of_char c :: nat) \<le> 57) s
      then Some (foldl (\<lambda>n c. 10 * n + (of_char c - 48)) 0 s)
      else None)"

definition days_in_month :: "nat \<Rightarrow> nat \<Rightarrow> nat" where
  "days_in_month y m =
     (if m = 2 then (if y mod 4 = 0 \<and> (y mod 100 \<noteq> 0 \<or> y mod 400 = 0) then 29 else 28)
      else if m = 4 \<or> m = 6 \<or> m = 9 \<or> m = 11 then 30 else 31)"

definition offset_ok :: "string \<Rightarrow> bool" where
  "offset_ok s \<longleftrightarrow>
     s = [] \<or>
     (length s = 6 \<and> (s ! 0 = CHR ''+'' \<or> s ! 0 = CHR ''-'') \<and> s ! 3 = CHR '':''
      \<and> (case (digits_val (take 2 (drop 1 s)), digits_val (drop 4 s)) of
           (Some h, Some m) \<Rightarrow> h < 24 \<and> m < 60
         | _ \<Rightarrow> False))"

definition fromisoformat_seconds :: "string \<Rightarrow> datetime option" where
  "fromisoformat_seconds s =
     (if 19 \<le> length s \<and> s ! 4 = CHR ''-'' \<and> s ! 7 = CHR ''-'' \<and> s ! 13 = CHR '':''
         \<and> s ! 16 = CHR '':'' \<and> offset_ok (drop 19 s)
      then
        (case (digits_val (take 4 s), digits_val (take 2 (drop 5 s)), digits_val (take 2 (drop 8 s)),
               digits_val (take 2 (drop 11 s)), digits_val (take 2 (drop 14 s)),
               digits_val (take 2 (drop 17 s))) of
           (Some y, Some mo, Some d, Some h, Some mi, Some se) \<Rightarrow>
             if 1 \<le> y \<and> 1 \<le> mo \<and> mo \<le> 12 \<and> 1 \<le> d \<and> d \<le> days_in_month y mo
                \<and> h < 24 \<and> mi < 60 \<and> se < 60
             then Some \<lparr>dt_year = y, dt_month = mo, dt_day = d, dt_hour = h, dt_minute = mi,
                         dt_second = se\<rparr>
             else None
         | _ \<Rightarrow> None)
      else None)"

definition empty_item :: item where
  "empty_item =
     \<lparr>title = None, url = None, mobile_url = None, mobileUrl = None, source_name = None,
      matched_keyword = None, ranks = None, rank = None, rank_threshold = None,
      time_display = None, first_time = None, last_time = None, count = None, is_new = None,
      published_at = None, author = None\<rparr>"

definition empty_report :: report where
  "empty_report = \<lparr>stats = [], new_titles = [], failed_ids = [], total_new_count = 0\<rparr>"

definition example_env :: "string env" where
  "example_env =
     \<lparr>html_escape = (\<lambda>s. s),
      convert_time_for_display = (\<lambda>s. s),
      render_ai_analysis_html_rich = (\<lambda>s. s),
      fromisoformat = fromisoformat_seconds,
      page_head = ''<html>'',
      page_tail = ''</html>''\<rparr>"

text \<open>\<open>raises r\<close>: the call ends with an exception.\<close>

definition raises :: "py_error + 'a \<Rightarrow> bool" where
  "raises r \<longleftrightarrow> isl r"

text \<open>
  The keys that the hot-list and new-items paths read with \<open>d["k"]\<close>: of a news record of the
  hot list, \<open>title\<close> and, in keyword mode, \<open>source_name\<close>; of a word group, \<open>count\<close>,
  \<open>word\<close> and \<open>titles\<close>; of a new-items record, \<open>title\<close>; of a source group,
  \<open>source_name\<close> and \<open>titles\<close>.
\<close>

definition news_item_keys :: "string \<Rightarrow> item \<Rightarrow> bool" where
  "news_item_keys display_mode title_data \<longleftrightarrow>
     title title_data \<noteq> None \<and> (display_mode = ''keyword'' \<longrightarrow> source_name title_data \<noteq> None)"

definition word_group_keys :: "string \<Rightarrow> stat \<Rightarrow> bool" where
  "word_group_keys display_mode st \<longleftrightarrow>
     stat_count st \<noteq> None \<and> word st \<noteq> None
     \<and> (case titles st of None \<Rightarrow> False | Some ts \<Rightarrow> list_all (news_item_keys display_mode) ts)"

definition new_source_keys :: "source_data \<Rightarrow> bool" where
  "new_source_keys sd \<longleftrightarrow>
     sd_source_name sd \<noteq> None
     \<and> (case sd_titles sd of None \<Rightarrow> False
         | Some ts \<Rightarrow> list_all (\<lambda>title_data. title title_data \<noteq> None) ts)"

section \<open>The segmentation pass of \<open>saveAsMultipleImages\<close>\<close>

text \<open>
  The page script measures the blocks of the rendered report and cuts the page into segments,
  one image each (html.py, lines 1459-1591). An entry of \<open>elements\<close> carries the block's
  offsets from the top of the container; a segment carries its own start, end and height.
  Offsets are JavaScript numbers; they are modelled as reals, the pass only subtracts and
  compares them.
\<close>

datatype element_type = Header | ErrorSection | WordHeader | NewsItem | NewSection | Footer

record element =
  el_type :: element_type
  el_top :: real
  el_bottom :: real
  el_height :: real

record segment =
  seg_start :: real
  seg_end :: real
  seg_height :: real
  includeHeader :: bool

text \<open>
  The first entry of \<open>elements\<close> is always the header, pushed with \<open>top: 0\<close> and
  \<open>bottom: header.offsetHeight\<close> (lines 1483-1489).
\<close>

definition header_element :: "real \<Rightarrow> element" where
  "header_element offsetHeight =
     \<lparr>el_type = Header, el_top = 0, el_bottom = offsetHeight, el_height = offsetHeight\<rparr>"

text \<open>
  The loop of lines 1564-1585 over \<open>elements[1..]\<close>. \<open>prev\<close> is \<open>elements[i - 1]\<close>,
  the state is the current segment and the list of segments pushed so far.
\<close>

fun split_loop ::
  "real \<Rightarrow> real \<Rightarrow> element \<Rightarrow> element list \<Rightarrow> segment \<times> segment list \<Rightarrow> segment \<times> segment list" where
  "split_loop maxHeight headerHeight prev [] st = st"
| "split_loop maxHeight headerHeight prev (element # rest) (currentSegment, segments) =
     (let potentialHeight = el_bottom element - seg_start currentSegment in
      if potentialHeight > maxHeight \<and> seg_height currentSegment > headerHeight then
        (let closed = currentSegment\<lparr>seg_end := el_bottom prev\<rparr> in
         split_loop maxHeight headerHeight element rest
           (\<lparr>seg_start = seg_end closed, seg_end = 0,
             seg_height = el_bottom element - seg_end closed, includeHeader = False\<rparr>,
            segments @ [closed]))
      else
        split_loop maxHeight headerHeight element rest
          (currentSegment\<lparr>seg_height := potentialHeight, seg_end := el_bottom element\<rparr>,
           segments))"

text \<open>
  Lines 1559-1591: the initial segment, the loop, and the last segment, which is pushed only
  when its height is positive and then ends at \<open>container.offsetHeight\<close>. \<open>others\<close>
  are the entries pushed after the header (error section, word headers and news items, new
  section, footer).
\<close>

definition compute_segments :: "real \<Rightarrow> real \<Rightarrow> element list \<Rightarrow> real \<Rightarrow> segment list" where
  "compute_segments maxHeight headerOffsetHeight others containerOffsetHeight =
     (let headerHeight = headerOffsetHeight;
          (currentSegment, segments) =
             split_loop maxHeight headerHeight (header_element headerOffsetHeight) others
               (\<lparr>seg_start = 0, seg_end = 0, seg_height = headerHeight, includeHeader = True\<rparr>, [])
      in if seg_height currentSegment > 0
         then segments @ [currentSegment\<lparr>seg_end := containerOffsetHeight\<rparr>]
         else segments)"

text \<open>
  A block list in document order: no block has its bottom above its top, and every block ends
  at or before the top of every later block.
\<close>

definition sequential :: "element list \<Rightarrow> bool" where
  "sequential els \<longleftrightarrow>
     (\<forall>e \<in> set els. el_top e \<le> el_bottom e) \<and> sorted_wrt (\<lambda>a b. el_bottom a \<le> el_top b) els"

text \<open>
  \<open>chain a segs b\<close>: the segments tile the range from \<open>a\<close> to \<open>b\<close>, each of
  positive extent and each starting where its predecessor ends.
\<close>

fun chain :: "real \<Rightarrow> segment list \<Rightarrow> real \<Rightarrow> bool" where
  "chain a [] b = (a = b)"
| "chain a (s # ss) b = (seg_start s = a \<and> seg_start s < seg_end s \<and> chain (seg_end s) ss b)"

subsection \<open>Facts about the Python helpers\<close>

lemma list_min_Min: "rs \<noteq> [] \<Longrightarrow> list_min rs = Min (set rs)"
  by (induction rs rule: list_min.induct) (auto simp: min_def)

lemma list_max_Max: "rs \<noteq> [] \<Longrightarrow> list_max rs = Max (set rs)"
  by (induction rs rule: list_max.induct) (auto simp: max_def)

lemma rank_class_tiers:
  "(stats_rank_class rs t = ''top'' \<longleftrightarrow> list_min rs \<le> 3)
   \<and> (stats_rank_class rs t = ''high'' \<longleftrightarrow> 3 < list_min rs \<and> list_min rs \<le> t)
   \<and> (stats_rank_class rs t = [] \<longleftrightarrow> 3 < list_min rs \<and> t < list_min rs)"
  by (auto simp: stats_rank_class_def Let_def)

lemma str_in_single: "str_in [c] s \<longleftrightarrow> c \<in> set s"
  by (induction s) (auto simp: str_in_def)

lemma str_replace_single:
  "str_replace [a] new s = concat (map (\<lambda>c. if c = a then new else [c]) s)"
  by (induction s) simp_all

lemma pad2_two_digits:
  "n < 100 \<Longrightarrow> pad2 n = [''0123456789'' ! (n div 10), ''0123456789'' ! (n mod 10)]"
proof (cases "n < 10")
  case True
  then show ?thesis by (simp add: pad2_def digit_char_def)
next
  case False
  assume "n < 100"
  then have "n div 10 < 10" by simp
  then show ?thesis using False by (simp add: pad2_def digit_char_def)
qed

section \<open>Section dividers\<close>

subsection \<open>The loop and its trace\<close>

lemma emitted_Cons:
  "emitted rc (region # regions) hp =
     emitted rc [region] hp @ emitted rc regions (hp \<or> emitted rc [region] hp \<noteq> [])"
  by (simp add: Let_def split: list.splits)

lemma assemble_region_trace:
  "assemble_region rc region (html, hp) =
     (html @ concat (map render_part (emitted rc [region] hp)), hp \<or> emitted rc [region] hp \<noteq> [])"
  by (cases "new_items rc")
     (simp add: assemble_region_def append_part_def render_part_def Let_def)

lemma fold_assemble_trace:
  "fold (assemble_region rc) region_order (html, hp) =
     (html @ concat (map render_part (emitted rc region_order hp)),
      hp \<or> emitted rc region_order hp \<noteq> [])"
proof (induction region_order arbitrary: html hp)
  case Nil
  then show ?case by simp
next
  case (Cons region regions)
  have "fold (assemble_region rc) (region # regions) (html, hp)
      = fold (assemble_region rc) regions
          (html @ concat (map render_part (emitted rc [region] hp)),
           hp \<or> emitted rc [region] hp \<noteq> [])"
    by (simp add: assemble_region_trace)
  also have "\<dots> = (html @ concat (map render_part (emitted rc (region # regions) hp)),
                   hp \<or> emitted rc (region # regions) hp \<noteq> [])"
    unfolding Cons.IH emitted_Cons[of rc region regions hp] by simp
  finally show ?case .
qed

lemma emitted_after_content: "(d, c) \<in> set (emitted rc region_order True) \<Longrightarrow> d"
  by (induction region_order) (auto simp: Let_def split: list.splits)

lemma emitted_first_rest:
  "emitted rc region_order hp = p # rest \<Longrightarrow> fst p = hp \<and> (\<forall>q \<in> set rest. fst q)"
proof (induction region_order arbitrary: hp)
  case Nil
  then show ?case by simp
next
  case (Cons region regions)
  then show ?case
    by (auto simp: Let_def split: list.splits dest: emitted_after_content)
qed

lemma emitted_nonempty_content: "p \<in> set (emitted rc region_order hp) \<Longrightarrow> snd p \<noteq> []"
proof (induction region_order arbitrary: hp)
  case Nil
  then show ?case by simp
next
  case (Cons region regions)
  then show ?case
    by (auto simp: Let_def split: list.splits if_splits)
qed

lemma emitted_content_source:
  "p \<in> set (emitted rc region_order hp) \<Longrightarrow>
     snd p \<in> {hotlist rc, rss rc, fst (new_items rc), snd (new_items rc), standalone rc,
              ai_analysis rc}"
proof (induction region_order arbitrary: hp)
  case Nil
  then show ?case by simp
next
  case (Cons region regions)
  then show ?case
    by (auto simp: Let_def region_content_def split: list.splits if_splits)
qed

lemma assemble_trace:
  "fst (assemble rc region_order html) =
     html @ concat (map render_part (emitted rc region_order False))"
  by (simp add: assemble_def fold_assemble_trace)

lemma add_section_divider_marks:
  \<open>str_find ''class="'' content = Some k \<Longrightarrow>
     add_section_divider content
       = take (k + length ''class="'') content @ ''section-divider '' @ drop (k + length ''class="'') content\<close>
proof -
  assume found: \<open>str_find ''class="'' content = Some k\<close>
  have "content \<noteq> []"
    using found by (cases content) simp_all
  then show ?thesis
    using found by (simp add: add_section_divider_def str_in_def del: str_find.simps)
qed

lemma add_section_divider_unmarked:
  \<open>\<not> str_in ''class="'' content \<Longrightarrow> add_section_divider content = content\<close>
  by (simp add: add_section_divider_def)

subsection \<open>The regions rendered by this module carry a class attribute\<close>

lemma stats_html_class:
  \<open>render_stats_html env display_mode sts = Inr s \<Longrightarrow> s = [] \<or> str_in ''class="'' s\<close>
  by (auto simp: render_stats_html_def err_bind_def str_in_def split: sum.splits if_splits)

lemma new_titles_html_class:
  \<open>render_new_titles_html env show_new_section report_data = Inr s \<Longrightarrow>
     s = [] \<or> str_in ''class="'' s\<close>
  by (auto simp: render_new_titles_html_def err_bind_def str_in_def split: sum.splits if_splits)

lemma rss_region_class:
  \<open>rss_region env rss_list section_title = [] \<or> str_in ''class="'' (rss_region env rss_list section_title)\<close>
  by (simp add: rss_region_def render_rss_stats_html_def str_in_def Let_def split: option.splits)

lemma standalone_html_class:
  \<open>render_standalone_html env data = [] \<or> str_in ''class="'' (render_standalone_html env data)\<close>
  by (simp add: render_standalone_html_def str_in_def Let_def split: option.splits)

lemma render_html_content_parts:
  assumes "hot_news_count (stats report_data) = Inr hot"
    and "render_stats_html env display_mode (stats report_data) = Inr stats_html"
    and "render_new_titles_html env show_new_section report_data = Inr new_titles_html"
  shows "render_html_content env datetime_now report_data total_titles mode update_info
           region_order get_time_func rss_items rss_new_items display_mode standalone_data ai
           show_new_section
         = Inr (render_header env mode total_titles hot
                  (case get_time_func of Some t \<Rightarrow> t | None \<Rightarrow> datetime_now)
                @ render_failed_ids env (failed_ids report_data)
                @ concat (map render_part
                    (emitted (build_region_contents env stats_html new_titles_html rss_items
                                rss_new_items standalone_data ai)
                       (dict_get region_order default_region_order) False))
                @ render_footer env update_info)"
  using assms by (simp add: render_html_content_def err_bind_def Let_def assemble_trace)

lemma built_regions_class:
  assumes "render_stats_html env display_mode sts = Inr stats_html"
    and "render_new_titles_html env show_new_section report_data = Inr new_titles_html"
    and \<open>ai_region env ai = [] \<or> str_in ''class="'' (ai_region env ai)\<close>
    and "p \<in> set (emitted (build_region_contents env stats_html new_titles_html rss_items
                        rss_new_items standalone_data ai) region_order hp)"
  shows \<open>str_in ''class="'' (snd p)\<close>
proof -
  let ?rc = "build_region_contents env stats_html new_titles_html rss_items rss_new_items
               standalone_data ai"
  have ne: "snd p \<noteq> []"
    by (rule emitted_nonempty_content[OF assms(4)])
  have "snd p \<in> {hotlist ?rc, rss ?rc, fst (new_items ?rc), snd (new_items ?rc), standalone ?rc,
                  ai_analysis ?rc}"
    by (rule emitted_content_source[OF assms(4)])
  then consider "snd p = stats_html" | \<open>snd p = rss_region env rss_items (''RSS '' @
                                                                                [CHR 0xE8, CHR 0xA8, CHR 0x82, CHR 0xE9, CHR 0x96, CHR 0xB1, CHR 0xE6, CHR 0x9B, CHR 0xB4, CHR 0xE6, CHR 0x96, CHR 0xB0])\<close>
    | "snd p = new_titles_html" | \<open>snd p = rss_region env rss_new_items (''RSS '' @
                                                                               [CHR 0xE6, CHR 0x96, CHR 0xB0, CHR 0xE5, CHR 0xA2, CHR 0x9E, CHR 0xE6, CHR 0x9B, CHR 0xB4, CHR 0xE6, CHR 0x96, CHR 0xB0])\<close>
    | "snd p = render_standalone_html env standalone_data" | "snd p = ai_region env ai"
    by (auto simp: build_region_contents_def)
  then show ?thesis
  proof cases
    case 1
    then show ?thesis using stats_html_class[OF assms(1)] ne by simp
  next
    case 2
    then show ?thesis using rss_region_class[of env rss_items] ne by auto
  next
    case 3
    then show ?thesis using new_titles_html_class[OF assms(2)] ne by simp
  next
    case 4
    then show ?thesis using rss_region_class[of env rss_new_items] ne by auto
  next
    case 5
    then show ?thesis using standalone_html_class[of env standalone_data] ne by simp
  next
    case 6
    then show ?thesis using assms(3) ne by simp
  qed
qed

subsection \<open>The parts and the trace\<close>

lemma emitted_contents: "map snd (emitted rc region_order hp) = appended_parts rc region_order"
proof (induction region_order arbitrary: hp)
  case Nil
  then show ?case by (simp add: appended_parts_def)
next
  case (Cons region regions)
  have step: "appended_parts rc (region # regions)
      = filter (\<lambda>content. content \<noteq> []) (region_parts rc region) @ appended_parts rc regions"
    by (simp add: appended_parts_def)
  show ?case
    unfolding step
    by (cases "filter (\<lambda>content. content \<noteq> []) (region_parts rc region)")
       (simp_all add: Cons.IH region_parts_def Let_def comp_def del: filter.simps)
qed

lemma emitted_parts:
  "emitted rc region_order False =
     (case appended_parts rc region_order of
        [] \<Rightarrow> []
      | p # ps \<Rightarrow> (False, p) # map (\<lambda>content. (True, content)) ps)"
proof (cases "emitted rc region_order False")
  case Nil
  then show ?thesis using emitted_contents[of rc region_order False] by simp
next
  case (Cons q rest)
  from emitted_first_rest[OF Cons] have q: "\<not> fst q" and rest: "\<forall>r \<in> set rest. fst r"
    by simp_all
  have contents: "appended_parts rc region_order = snd q # map snd rest"
    using emitted_contents[of rc region_order False] Cons by simp
  have "rest = map (\<lambda>content. (True, content)) (map snd rest)"
    using rest by (induction rest) (auto simp: prod_eq_iff)
  moreover have "q = (False, snd q)" using q by (simp add: prod_eq_iff)
  ultimately show ?thesis unfolding Cons contents by simp
qed

lemma rendered_parts:
  "concat (map render_part (emitted rc region_order False)) =
     concat (case appended_parts rc region_order of
               [] \<Rightarrow> []
             | p # ps \<Rightarrow> p # map add_section_divider ps)"
  unfolding emitted_parts
  by (cases "appended_parts rc region_order") (simp_all add: render_part_def comp_def)

subsection \<open>Occurrences of the marker\<close>

lemma str_find_at:
  "str_find sub s = Some k \<Longrightarrow> take (length sub) (drop k s) = sub \<and> k + length sub \<le> length s"
proof (induction s arbitrary: k)
  case Nil
  then show ?case by (simp split: if_splits)
next
  case (Cons c cs)
  show ?case
  proof (cases "take (length sub) (c # cs) = sub")
    case True
    then have "k = 0" using Cons.prems by simp
    moreover have "length sub \<le> length (c # cs)"
      using arg_cong[OF True, of length] by simp
    ultimately show ?thesis using True by simp
  next
    case False
    then obtain k' where k: "k = Suc k'" and found: "str_find sub cs = Some k'"
      using Cons.prems by auto
    from Cons.IH[OF found] show ?thesis unfolding k by simp
  qed
qed

lemma count_sub_barrier:
  "m \<noteq> [] \<Longrightarrow> a \<noteq> [] \<Longrightarrow> last a \<notin> set m \<Longrightarrow> count_sub m (a @ x) = count_sub m a + count_sub m x"
proof (induction a)
  case Nil
  then show ?case by simp
next
  case (Cons c a)
  have here: "(take (length m) ((c # a) @ x) = m) = (take (length m) (c # a) = m)"
  proof (cases "length m \<le> length (c # a)")
    case True
    then show ?thesis unfolding take_append by simp
  next
    case False
    have "take (length m) (c # a) \<noteq> m"
    proof
      assume "take (length m) (c # a) = m"
      from arg_cong[OF this, of length] show False using False by simp
    qed
    moreover have "take (length m) ((c # a) @ x) \<noteq> m"
    proof
      assume eq: "take (length m) ((c # a) @ x) = m"
      have "take (length m) ((c # a) @ x) = (c # a) @ take (length m - length (c # a)) x"
        using False unfolding take_append by simp
      then have "last (c # a) \<in> set m"
        using eq by (metis last_in_set list.distinct(1) set_append UnI1)
      then show False using Cons.prems(3) by simp
    qed
    ultimately show ?thesis by simp
  qed
  show ?case
  proof (cases "a = []")
    case True
    have "take (length m) [c] \<noteq> m"
    proof
      assume "take (length m) [c] = m"
      then have "m = [c]" using Cons.prems(1) by (cases m) (simp_all split: if_splits)
      then show False using Cons.prems(3) True by simp
    qed
    then show ?thesis using here True by simp
  next
    case False
    then have "count_sub m (a @ x) = count_sub m a + count_sub m x"
      using Cons by simp
    then show ?thesis using here by simp
  qed
qed

lemma count_sub_skip:
  "\<forall>d \<in> set u. d \<noteq> c \<Longrightarrow> count_sub (c # m) (u @ b) = count_sub (c # m) b"
  by (induction u) auto

lemma count_sub_self:
  "c \<notin> set m \<Longrightarrow> count_sub (c # m) ((c # m) @ b) = 1 + count_sub (c # m) b"
  using count_sub_skip[of m c m b] by auto

lemma marker_occurs_once:
  \<open>count_sub ''section-divider '' (''section-divider '' @ b) = 1 + count_sub ''section-divider '' b\<close>
  by (rule count_sub_self) simp

lemma count_sub_marked:
  assumes \<open>str_find ''class="'' content = Some k\<close>
  shows \<open>count_sub ''section-divider '' (pre @ add_section_divider content @ post)
           = count_sub ''section-divider '' (pre @ content @ post) + 1\<close>
proof -
  let ?n = \<open>k + length ''class="''\<close>
  let ?a = "pre @ take ?n content"
  from str_find_at[OF assms] have at: \<open>take (length ''class="'') (drop k content) = ''class="''\<close>
    by simp
  have \<open>take ?n content = take k content @ take (length ''class="'') (drop k content)\<close>
    by (rule take_add)
  then have tk: \<open>take ?n content = take k content @ ''class="''\<close>
    using at by simp
  have ne: "?a \<noteq> []" using tk by simp
  have lst: \<open>last ?a \<notin> set ''section-divider ''\<close> using tk by simp
  have m: \<open>''section-divider '' \<noteq> []\<close> by simp
  have e1: \<open>count_sub ''section-divider '' (?a @ ''section-divider '' @ drop ?n content @ post)
      = count_sub ''section-divider '' ?a + (1 + count_sub ''section-divider '' (drop ?n content @ post))\<close>
    by (simp only: count_sub_barrier[OF m ne lst] marker_occurs_once)
  have e2: \<open>count_sub ''section-divider '' (?a @ drop ?n content @ post)
      = count_sub ''section-divider '' ?a + count_sub ''section-divider '' (drop ?n content @ post)\<close>
    by (rule count_sub_barrier[OF m ne lst])
  have e3: "pre @ content @ post = ?a @ drop ?n content @ post"
    by simp
  have e4: \<open>pre @ add_section_divider content @ post
      = ?a @ ''section-divider '' @ drop ?n content @ post\<close>
    by (simp add: add_section_divider_marks[OF assms])
  have \<open>count_sub ''section-divider '' (pre @ add_section_divider content @ post)
      = count_sub ''section-divider '' ?a + (1 + count_sub ''section-divider '' (drop ?n content @ post))\<close>
    by (simp only: e4 e1)
  moreover have \<open>count_sub ''section-divider '' (pre @ content @ post)
      = count_sub ''section-divider '' ?a + count_sub ''section-divider '' (drop ?n content @ post)\<close>
    by (simp only: e3 e2)
  ultimately show ?thesis by linarith
qed

lemma count_sub_marked_parts:
  assumes \<open>\<forall>content \<in> set ps. str_in ''class="'' content\<close>
  shows \<open>count_sub ''section-divider '' (pre @ concat (map add_section_divider ps) @ post)
           = count_sub ''section-divider '' (pre @ concat ps @ post) + length ps\<close>
  using assms
proof (induction ps arbitrary: pre)
  case Nil
  then show ?case by simp
next
  case (Cons content ps)
  then obtain k where k: \<open>str_find ''class="'' content = Some k\<close>
    by (auto simp: str_in_def)
  have \<open>count_sub ''section-divider '' (pre @ add_section_divider content
             @ (concat (map add_section_divider ps) @ post))
      = count_sub ''section-divider '' (pre @ content @ (concat (map add_section_divider ps) @ post)) + 1\<close>
    by (rule count_sub_marked[OF k])
  moreover have \<open>count_sub ''section-divider '' ((pre @ content) @ concat (map add_section_divider ps) @ post)
      = count_sub ''section-divider '' ((pre @ content) @ concat ps @ post) + length ps\<close>
    by (rule Cons.IH) (use Cons.prems in simp)
  ultimately show ?case by simp
qed

lemma appended_parts_class:
  assumes "render_stats_html env display_mode sts = Inr stats_html"
    and "render_new_titles_html env show_new_section report_data = Inr new_titles_html"
    and \<open>ai_region env ai = [] \<or> str_in ''class="'' (ai_region env ai)\<close>
    and "content \<in> set (appended_parts (build_region_contents env stats_html new_titles_html
                        rss_items rss_new_items standalone_data ai) region_order)"
  shows \<open>str_in ''class="'' content\<close>
proof -
  let ?rc = "build_region_contents env stats_html new_titles_html rss_items rss_new_items
               standalone_data ai"
  have "content \<in> snd ` set (emitted ?rc region_order False)"
    using assms(4) emitted_contents[of ?rc region_order False, symmetric] by simp
  then obtain p where p: "p \<in> set (emitted ?rc region_order False)" and c: "content = snd p"
    by (rule imageE)
  show ?thesis
    unfolding c by (rule built_regions_class[OF assms(1) assms(2) assms(3) p])
qed

subsection \<open>The number of dividers\<close>

text \<open>
  Claim C1. Take a call of \<open>render_html_content\<close> that raises no error, with an AI block that
  is empty or carries a class attribute, as the block of the formatter does (the hot-list, RSS,
  new-items and standalone sections are rendered here and always carry one). Let \<open>parts\<close> be
  the non-empty content parts in the order of \<open>region_order\<close>, the two parts of \<open>new_items\<close>
  counted one by one, and \<open>n\<close> their number. Then the page is the header and the error block,
  the \<open>n\<close> rendered parts in order, and the footer. The first rendered part is the first part
  as it is: no divider precedes it, whatever the error block holds. Each later rendered part is
  its part with the marker \<open>section-divider\<close> written once, at the head of its first class
  attribute. The header, the error block and the footer are as rendered, so the text of the
  page holds exactly \<open>max(0, n - 1)\<close> occurrences of the marker more than the same page with
  the parts as they are.
\<close>

theorem section_dividers_between_parts:
  assumes "hot_news_count (stats report_data) = Inr hot"
    and "render_stats_html env display_mode (stats report_data) = Inr stats_html"
    and "render_new_titles_html env show_new_section report_data = Inr new_titles_html"
    and \<open>ai_region env ai = [] \<or> str_in ''class="'' (ai_region env ai)\<close>
    and "parts = appended_parts
                   (build_region_contents env stats_html new_titles_html rss_items rss_new_items
                      standalone_data ai)
                   (dict_get region_order default_region_order)"
    and "head_html = render_header env mode total_titles hot
                   (case get_time_func of Some t \<Rightarrow> t | None \<Rightarrow> datetime_now)
                 @ render_failed_ids env (failed_ids report_data)"
    and "foot_html = render_footer env update_info"
  shows \<open>\<exists>page rendered.
           render_html_content env datetime_now report_data total_titles mode update_info
             region_order get_time_func rss_items rss_new_items display_mode standalone_data ai
             show_new_section = Inr page
         \<and> page = head_html @ concat rendered @ foot_html
         \<and> length rendered = length parts
         \<and> (\<forall>i < length parts.
              parts ! i \<noteq> []
              \<and> (if i = 0 then rendered ! i = parts ! i
                 else \<exists>k. str_find ''class="'' (parts ! i) = Some k
                        \<and> rendered ! i
                            = take (k + 7) (parts ! i) @ ''section-divider ''
                              @ drop (k + 7) (parts ! i)))
         \<and> count_sub ''section-divider '' page
             = count_sub ''section-divider '' (head_html @ concat parts @ foot_html)
               + (length parts - 1)\<close>
proof -
  let ?rc = "build_region_contents env stats_html new_titles_html rss_items rss_new_items
               standalone_data ai"
  let ?order = "dict_get region_order default_region_order"
  let ?rendered = "case parts of [] \<Rightarrow> [] | p # ps \<Rightarrow> p # map add_section_divider ps"
  let ?page = "head_html @ concat ?rendered @ foot_html"
  have page: "render_html_content env datetime_now report_data total_titles mode update_info
             region_order get_time_func rss_items rss_new_items display_mode standalone_data ai
             show_new_section = Inr ?page"
    unfolding render_html_content_parts[OF assms(1) assms(2) assms(3)] rendered_parts
      assms(5) assms(6) assms(7) by simp
  have len: "length ?rendered = length parts"
    by (cases parts) simp_all
  have classed: \<open>\<forall>content \<in> set parts. str_in ''class="'' content\<close>
    unfolding assms(5)
    by (rule ballI) (rule appended_parts_class[OF assms(2) assms(3) assms(4)])
  have nonempty: "\<forall>content \<in> set parts. content \<noteq> []"
    unfolding assms(5) by (simp add: appended_parts_def)
  have each: \<open>parts ! i \<noteq> []
              \<and> (if i = 0 then ?rendered ! i = parts ! i
                 else \<exists>k. str_find ''class="'' (parts ! i) = Some k
                        \<and> ?rendered ! i
                            = take (k + 7) (parts ! i) @ ''section-divider ''
                              @ drop (k + 7) (parts ! i))\<close>
    if i: "i < length parts" for i
  proof -
    have mem: "parts ! i \<in> set parts" using i by simp
    have ne: "parts ! i \<noteq> []" using nonempty mem by (rule bspec)
    have cl: \<open>str_in ''class="'' (parts ! i)\<close> using classed mem by (rule bspec)
    then obtain k where k: \<open>str_find ''class="'' (parts ! i) = Some k\<close>
      by (auto simp: str_in_def)
    obtain p ps where ps: "parts = p # ps" using i by (cases parts) auto
    show ?thesis
    proof (cases "i = 0")
      case True
      then show ?thesis using ne ps by simp
    next
      case False
      then obtain j where j: "i = Suc j" by (cases i) auto
      have l7: \<open>k + length ''class="'' = k + 7\<close> by simp
      have r: "?rendered ! i = add_section_divider (parts ! i)"
        using i unfolding ps j by simp
      have \<open>?rendered ! i
          = take (k + 7) (parts ! i) @ ''section-divider '' @ drop (k + 7) (parts ! i)\<close>
        by (simp only: r add_section_divider_marks[OF k] l7)
      then show ?thesis using False ne k by simp
    qed
  qed
  have count: \<open>count_sub ''section-divider '' ?page
             = count_sub ''section-divider '' (head_html @ concat parts @ foot_html)
               + (length parts - 1)\<close>
  proof (cases parts)
    case Nil
    then show ?thesis by simp
  next
    case (Cons p ps)
    have \<open>\<forall>content \<in> set ps. str_in ''class="'' content\<close>
      using classed Cons by simp
    from count_sub_marked_parts[OF this, of "head_html @ p" foot_html]
    show ?thesis unfolding Cons by simp
  qed
  from page len each count show ?thesis by blast
qed

text \<open>
  The theorem at a page with two parts, an RSS section of one keyword group and an AI block:
  the RSS section is the first part and is appended as it is, the AI block is the second and
  gets the one marker of the page.
\<close>

theorem section_dividers_between_parts_witness:
  \<open>hot_news_count (stats empty_report) = Inr 0
   \<and> render_stats_html example_env ''keyword'' (stats empty_report) = Inr []
   \<and> render_new_titles_html example_env True empty_report = Inr []
   \<and> str_in ''class="'' (ai_region example_env (Some ''<div class="ai-section">a</div>''))
   \<and> appended_parts
        (build_region_contents example_env [] []
           (Some [\<lparr>word = Some ''ai'', stat_count = Some 1, titles = Some []\<rparr>]) None None
           (Some ''<div class="ai-section">a</div>''))
        (dict_get None default_region_order)
      = [rss_region example_env
           (Some [\<lparr>word = Some ''ai'', stat_count = Some 1, titles = Some []\<rparr>]) (''RSS '' @
                                                                                               [CHR 0xE8, CHR 0xA8, CHR 0x82, CHR 0xE9, CHR 0x96, CHR 0xB1, CHR 0xE6, CHR 0x9B, CHR 0xB4, CHR 0xE6, CHR 0x96, CHR 0xB0]),
         ''<div class="ai-section">a</div>'']
   \<and> render_html_content example_env
        \<lparr>dt_year = 2025, dt_month = 1, dt_day = 7, dt_hour = 8, dt_minute = 0, dt_second = 0\<rparr>
        empty_report 0 ''daily'' None None None
        (Some [\<lparr>word = Some ''ai'', stat_count = Some 1, titles = Some []\<rparr>]) None ''keyword''
        None (Some ''<div class="ai-section">a</div>'') True
      = Inr (render_header example_env ''daily'' 0 0
               \<lparr>dt_year = 2025, dt_month = 1, dt_day = 7, dt_hour = 8, dt_minute = 0,
                dt_second = 0\<rparr>
             @ render_failed_ids example_env (failed_ids empty_report)
             @ rss_region example_env
                 (Some [\<lparr>word = Some ''ai'', stat_count = Some 1, titles = Some []\<rparr>]) (''RSS '' @
                                                                                                     [CHR 0xE8, CHR 0xA8, CHR 0x82, CHR 0xE9, CHR 0x96, CHR 0xB1, CHR 0xE6, CHR 0x9B, CHR 0xB4, CHR 0xE6, CHR 0x96, CHR 0xB0])
             @ ''<div class="section-divider ai-section">a</div>''
             @ render_footer example_env None)
   \<and> count_sub ''section-divider ''
        (render_header example_env ''daily'' 0 0
           \<lparr>dt_year = 2025, dt_month = 1, dt_day = 7, dt_hour = 8, dt_minute = 0,
            dt_second = 0\<rparr>
         @ render_failed_ids example_env (failed_ids empty_report)
         @ rss_region example_env
             (Some [\<lparr>word = Some ''ai'', stat_count = Some 1, titles = Some []\<rparr>]) (''RSS '' @
                                                                                                 [CHR 0xE8, CHR 0xA8, CHR 0x82, CHR 0xE9, CHR 0x96, CHR 0xB1, CHR 0xE6, CHR 0x9B, CHR 0xB4, CHR 0xE6, CHR 0x96, CHR 0xB0])
         @ ''<div class="section-divider ai-section">a</div>''
         @ render_footer example_env None)
      = count_sub ''section-divider ''
          (render_header example_env ''daily'' 0 0
             \<lparr>dt_year = 2025, dt_month = 1, dt_day = 7, dt_hour = 8, dt_minute = 0,
              dt_second = 0\<rparr>
           @ render_failed_ids example_env (failed_ids empty_report)
           @ rss_region example_env
               (Some [\<lparr>word = Some ''ai'', stat_count = Some 1, titles = Some []\<rparr>]) (''RSS '' @
                                                                                                   [CHR 0xE8, CHR 0xA8, CHR 0x82, CHR 0xE9, CHR 0x96, CHR 0xB1, CHR 0xE6, CHR 0x9B, CHR 0xB4, CHR 0xE6, CHR 0x96, CHR 0xB0])
           @ ''<div class="ai-section">a</div>''
           @ render_footer example_env None) + 1\<close>
proof -
  let ?feeds = \<open>Some [\<lparr>word = Some ''ai'', stat_count = Some 1, titles = Some []\<rparr>]\<close>
  let ?ai = \<open>''<div class="ai-section">a</div>''\<close>
  let ?now = "\<lparr>dt_year = 2025, dt_month = 1, dt_day = 7, dt_hour = 8, dt_minute = 0,
               dt_second = 0\<rparr>"
  let ?rss = \<open>rss_region example_env ?feeds (''RSS '' @
                                                   [CHR 0xE8, CHR 0xA8, CHR 0x82, CHR 0xE9, CHR 0x96, CHR 0xB1, CHR 0xE6, CHR 0x9B, CHR 0xB4, CHR 0xE6, CHR 0x96, CHR 0xB0])\<close>
  let ?head = "render_header example_env ''daily'' 0 0 ?now
               @ render_failed_ids example_env (failed_ids empty_report)"
  let ?foot = "render_footer example_env None"
  let ?parts = "appended_parts (build_region_contents example_env [] [] ?feeds None None (Some ?ai))
                  (dict_get None default_region_order)"
  have h1: "hot_news_count (stats empty_report) = Inr 0"
    by (simp add: empty_report_def)
  have h2: "render_stats_html example_env ''keyword'' (stats empty_report) = Inr []"
    by (simp add: empty_report_def render_stats_html_def err_bind_def)
  have h3: "render_new_titles_html example_env True empty_report = Inr []"
    by (simp add: empty_report_def render_new_titles_html_def)
  have cls: \<open>str_in ''class="'' (ai_region example_env (Some ?ai))\<close>
    by (simp add: ai_region_def example_env_def str_in_def)
  then have h4: \<open>ai_region example_env (Some ?ai) = []
      \<or> str_in ''class="'' (ai_region example_env (Some ?ai))\<close> ..
  have rss_ne: "?rss \<noteq> []"
    by (simp add: rss_region_def render_rss_stats_html_def dict_get_def Let_def)
  have parts: "?parts = [?rss, ?ai]"
    using rss_ne
    by (simp add: appended_parts_def region_parts_def region_content_def
        build_region_contents_def default_region_order_def dict_get_def
        render_standalone_html_def ai_region_def example_env_def
        rss_region_def[of _ None])
  have found: \<open>str_find ''class="'' ?ai = Some 5\<close>
    by simp
  from section_dividers_between_parts[OF h1 h2 h3 h4 refl refl refl,
      where rss_items = ?feeds and rss_new_items = None and standalone_data = None
        and region_order = None and mode = "''daily''" and total_titles = 0
        and get_time_func = None and datetime_now = ?now and update_info = None]
  obtain page rendered where
    page: "render_html_content example_env ?now empty_report 0 ''daily'' None None None ?feeds
             None ''keyword'' None (Some ?ai) True = Inr page"
    and shape: "page = (?head) @ concat rendered @ ?foot"
    and len: "length rendered = length ?parts"
    and each: \<open>\<forall>i < length ?parts.
              ?parts ! i \<noteq> []
              \<and> (if i = 0 then rendered ! i = ?parts ! i
                 else \<exists>k. str_find ''class="'' (?parts ! i) = Some k
                        \<and> rendered ! i
                            = take (k + 7) (?parts ! i) @ ''section-divider ''
                              @ drop (k + 7) (?parts ! i))\<close>
    and cnt: \<open>count_sub ''section-divider '' page
             = count_sub ''section-divider '' ((?head) @ concat ?parts @ ?foot)
               + (length ?parts - 1)\<close>
    by (simp only: option.case) blast
  have len2: "length rendered = 2" using len unfolding parts by simp
  have r0: "rendered ! 0 = ?rss" using each unfolding parts by simp
  have \<open>\<exists>k. str_find ''class="'' ?ai = Some k
          \<and> rendered ! 1 = take (k + 7) ?ai @ ''section-divider '' @ drop (k + 7) ?ai\<close>
    using each[unfolded parts, rule_format, of 1] by simp
  then have r1: \<open>rendered ! 1 = ''<div class="section-divider ai-section">a</div>''\<close>
    unfolding found by simp
  have "rendered = [rendered ! 0, rendered ! 1]"
    using len2 by (simp add: list_eq_iff_nth_eq numeral_2_eq_2 less_Suc_eq)
  then have rendered: \<open>rendered = [?rss, ''<div class="section-divider ai-section">a</div>'']\<close>
    unfolding r0 r1 .
  have w6: \<open>render_html_content example_env ?now empty_report 0 ''daily'' None None None ?feeds
             None ''keyword'' None (Some ?ai) True
      = Inr ((?head) @ ?rss @ ''<div class="section-divider ai-section">a</div>'' @ ?foot)\<close>
    unfolding page shape rendered by simp
  have w7: \<open>count_sub ''section-divider ''
        ((?head) @ ?rss @ ''<div class="section-divider ai-section">a</div>'' @ ?foot)
      = count_sub ''section-divider '' ((?head) @ ?rss @ ?ai @ ?foot) + 1\<close>
    using cnt unfolding shape rendered parts by simp
  show ?thesis
    using h1 h2 h3 cls parts w6 w7 by (simp only: append_assoc simp_thms)
qed

subsection \<open>Invariants of the segmentation loop\<close>

lemma chain_snoc:
  "chain a (ss @ [s]) b \<longleftrightarrow> chain a ss (seg_start s) \<and> seg_start s < seg_end s \<and> seg_end s = b"
  by (induction ss arbitrary: a) auto

lemma split_loop_inv:
  assumes "split_loop M hh prev es (cur, segs) = (cur', segs')"
    and "chain 0 segs (seg_start cur)"
    and "seg_height cur = el_bottom prev - seg_start cur"
    and "seg_start cur \<le> el_bottom prev"
    and "0 \<le> hh"
    and "sorted_wrt (\<lambda>a b. el_bottom a \<le> el_bottom b) (prev # es)"
  shows "chain 0 segs' (seg_start cur')
       \<and> seg_height cur' = el_bottom (last (prev # es)) - seg_start cur'
       \<and> seg_start cur' \<le> el_bottom (last (prev # es))
       \<and> seg_end ` set segs' \<subseteq> seg_end ` set segs \<union> el_bottom ` set (prev # es)"
  using assms
proof (induction es arbitrary: prev cur segs)
  case Nil
  then show ?case by auto
next
  case (Cons e es)
  have mono: "el_bottom prev \<le> el_bottom e"
    and sorted': "sorted_wrt (\<lambda>a b. el_bottom a \<le> el_bottom b) (e # es)"
    using Cons.prems(6) by auto
  show ?case
  proof (cases "el_bottom e - seg_start cur > M \<and> seg_height cur > hh")
    case True
    let ?closed = "cur\<lparr>seg_end := el_bottom prev\<rparr>"
    let ?new = "\<lparr>seg_start = el_bottom prev, seg_end = 0,
                 seg_height = el_bottom e - el_bottom prev, includeHeader = False\<rparr>"
    have run: "split_loop M hh e es (?new, segs @ [?closed]) = (cur', segs')"
      using Cons.prems(1) True by (simp add: Let_def)
    have pos: "seg_start cur < el_bottom prev"
      using True Cons.prems(3,5) by simp
    have ch: "chain 0 (segs @ [?closed]) (seg_start ?new)"
      using Cons.prems(2) pos by (simp add: chain_snoc)
    have "chain 0 segs' (seg_start cur')
       \<and> seg_height cur' = el_bottom (last (e # es)) - seg_start cur'
       \<and> seg_start cur' \<le> el_bottom (last (e # es))
       \<and> seg_end ` set segs' \<subseteq> seg_end ` set (segs @ [?closed]) \<union> el_bottom ` set (e # es)"
      by (rule Cons.IH[OF run ch _ _ Cons.prems(5) sorted']) (use mono in simp_all)
    then show ?thesis by auto
  next
    case False
    let ?ext = "cur\<lparr>seg_height := el_bottom e - seg_start cur, seg_end := el_bottom e\<rparr>"
    have run: "split_loop M hh e es (?ext, segs) = (cur', segs')"
      using Cons.prems(1) False by (simp add: Let_def)
    have "chain 0 segs' (seg_start cur')
       \<and> seg_height cur' = el_bottom (last (e # es)) - seg_start cur'
       \<and> seg_start cur' \<le> el_bottom (last (e # es))
       \<and> seg_end ` set segs' \<subseteq> seg_end ` set segs \<union> el_bottom ` set (e # es)"
      by (rule Cons.IH[OF run _ _ _ Cons.prems(5) sorted'])
         (use Cons.prems(2,4) mono in simp_all)
    then show ?thesis by auto
  qed
qed

lemma sequential_bottoms_sorted:
  "sequential els \<Longrightarrow> sorted_wrt (\<lambda>a b. el_bottom a \<le> el_bottom b) els"
  unfolding sequential_def
  by (induction els) (auto intro: order_trans)

lemma sequential_no_crossing:
  assumes "sequential els" "e \<in> set els" "e' \<in> set els"
  shows "\<not> (el_top e' < el_bottom e \<and> el_bottom e < el_bottom e')"
proof -
  obtain i j where i: "i < length els" "els ! i = e" and j: "j < length els" "els ! j = e'"
    using assms(2,3) by (auto simp: in_set_conv_nth)
  have tb: "\<And>x. x \<in> set els \<Longrightarrow> el_top x \<le> el_bottom x"
    and sw: "sorted_wrt (\<lambda>a b. el_bottom a \<le> el_top b) els"
    using assms(1) by (auto simp: sequential_def)
  consider "i < j" | "i = j" | "j < i" by linarith
  then show ?thesis
  proof cases
    case 1
    then have "el_bottom e \<le> el_top e'"
      using sorted_wrt_nth_less[OF sw 1 j(1)] i j by simp
    then show ?thesis by simp
  next
    case 2
    then show ?thesis using i j by auto
  next
    case 3
    then have "el_bottom e' \<le> el_top e"
      using sorted_wrt_nth_less[OF sw 3 i(1)] i j by simp
    moreover have "el_top e \<le> el_bottom e" using tb assms(2) by simp
    ultimately show ?thesis by simp
  qed
qed

lemma compute_segments_chain:
  assumes "others \<noteq> []"
    and "sequential (header_element hh # others)"
    and "H = el_bottom (last others)"
  shows "chain 0 (compute_segments M hh others H) H
       \<and> seg_end ` set (compute_segments M hh others H) \<subseteq> el_bottom ` set (header_element hh # others)"
proof -
  obtain cur segs where run:
    "split_loop M hh (header_element hh) others
       (\<lparr>seg_start = 0, seg_end = 0, seg_height = hh, includeHeader = True\<rparr>, []) = (cur, segs)"
    by (cases "split_loop M hh (header_element hh) others
       (\<lparr>seg_start = 0, seg_end = 0, seg_height = hh, includeHeader = True\<rparr>, [])") auto
  have hh: "0 \<le> hh"
    using assms(2) by (simp add: sequential_def header_element_def)
  have start: "chain 0 [] (seg_start \<lparr>seg_start = 0, seg_end = 0, seg_height = hh, includeHeader = True\<rparr>)"
    "seg_height \<lparr>seg_start = 0, seg_end = 0, seg_height = hh, includeHeader = True\<rparr>
       = el_bottom (header_element hh) - seg_start \<lparr>seg_start = 0, seg_end = 0, seg_height = hh, includeHeader = True\<rparr>"
    "seg_start \<lparr>seg_start = 0, seg_end = 0, seg_height = hh, includeHeader = True\<rparr> \<le> el_bottom (header_element hh)"
    using hh by (simp_all add: header_element_def)
  have inv: "chain 0 segs (seg_start cur)
       \<and> seg_height cur = el_bottom (last (header_element hh # others)) - seg_start cur
       \<and> seg_start cur \<le> el_bottom (last (header_element hh # others))
       \<and> seg_end ` set segs \<subseteq> el_bottom ` set (header_element hh # others)"
    using split_loop_inv[OF run start hh sequential_bottoms_sorted[OF assms(2)]] by simp
  have last: "last (header_element hh # others) = last others"
    using assms(1) by simp
  have lastin: "last others \<in> set (header_element hh # others)"
    using assms(1) by simp
  show ?thesis
  proof (cases "seg_height cur > 0")
    case True
    then have "compute_segments M hh others H = segs @ [cur\<lparr>seg_end := H\<rparr>]"
      using run by (simp add: compute_segments_def)
    moreover have "seg_start cur < H" using True inv last assms(3) by simp
    ultimately show ?thesis using inv lastin assms(3) by (auto simp: chain_snoc)
  next
    case False
    then have "compute_segments M hh others H = segs"
      using run by (simp add: compute_segments_def)
    moreover have "seg_start cur = H" using False inv last assms(3) by simp
    ultimately show ?thesis using inv by auto
  qed
qed


lemma chain_ends:
  "chain a segs b \<Longrightarrow> segs \<noteq> [] \<Longrightarrow> seg_start (hd segs) = a \<and> seg_end (last segs) = b"
  by (induction segs arbitrary: a) (auto split: if_splits)

lemma chain_nonempty: "chain a segs b \<Longrightarrow> a \<noteq> b \<Longrightarrow> segs \<noteq> []"
  by (cases segs) auto

lemma chain_contiguous:
  "chain a segs b \<Longrightarrow> Suc k < length segs \<Longrightarrow> seg_start (segs ! Suc k) = seg_end (segs ! k)"
proof (induction segs arbitrary: a k)
  case Nil
  then show ?case by simp
next
  case (Cons s ss)
  show ?case
  proof (cases k)
    case 0
    then show ?thesis using Cons.prems by (cases ss) auto
  next
    case (Suc k')
    then show ?thesis using Cons.IH[of "seg_end s" k'] Cons.prems by simp
  qed
qed

lemma chain_positive: "chain a segs b \<Longrightarrow> s \<in> set segs \<Longrightarrow> seg_start s < seg_end s"
  by (induction segs arbitrary: a) auto

lemma chain_lower: "chain a segs b \<Longrightarrow> s \<in> set segs \<Longrightarrow> a \<le> seg_start s"
  by (induction segs arbitrary: a) force+

lemma chain_disjoint: "chain a segs b \<Longrightarrow> sorted_wrt (\<lambda>s t. seg_end s \<le> seg_start t) segs"
  by (induction segs arbitrary: a) (auto dest: chain_lower)

lemma chain_starts:
  "chain a segs b \<Longrightarrow> s \<in> set segs \<Longrightarrow> seg_start s = a \<or> seg_start s \<in> seg_end ` set segs"
  by (induction segs arbitrary: a) force+

lemma chain_locate:
  "chain a segs b \<Longrightarrow> a \<le> t \<Longrightarrow> t < b \<Longrightarrow> \<exists>s \<in> set segs. seg_start s \<le> t \<and> t < seg_end s"
proof (induction segs arbitrary: a)
  case Nil
  then show ?case by simp
next
  case (Cons s ss)
  show ?case
  proof (cases "t < seg_end s")
    case True
    then show ?thesis using Cons.prems by auto
  next
    case False
    then have "\<exists>u \<in> set ss. seg_start u \<le> t \<and> t < seg_end u"
      using Cons.IH[of "seg_end s"] Cons.prems by simp
    then show ?thesis by auto
  qed
qed


lemma sequential_tops_nonneg:
  assumes "sequential (header_element hh # others)" "e \<in> set (header_element hh # others)"
  shows "0 \<le> el_top e"
  using assms by (auto simp: sequential_def header_element_def intro: order_trans)

text \<open>
  Claim C2. For a measured block list laid out one block after another (the header first at
  offset 0, the footer last, every block with top \<le> bottom) whose footer ends at the full
  document height, and for every height budget, the segments computed by the pass start at
  offset 0, end at the document height, are contiguous (each starts where the previous one
  ends), have positive extent and do not overlap, and no segment boundary lies strictly inside
  any block. The last property holds for every block, whatever its height, so in particular for
  the blocks that fit the budget.
\<close>

theorem segments_partition_document:
  assumes "others \<noteq> []"
    and "sequential (header_element hh # others)"
    and "H = el_bottom (last others)"
  shows "(compute_segments M hh others H \<noteq> [] \<longrightarrow>
            seg_start (hd (compute_segments M hh others H)) = 0
          \<and> seg_end (last (compute_segments M hh others H)) = H)
       \<and> (0 < H \<longrightarrow> compute_segments M hh others H \<noteq> [])
       \<and> (\<forall>k. Suc k < length (compute_segments M hh others H) \<longrightarrow>
            seg_start (compute_segments M hh others H ! Suc k)
              = seg_end (compute_segments M hh others H ! k))
       \<and> (\<forall>s \<in> set (compute_segments M hh others H). seg_start s < seg_end s)
       \<and> sorted_wrt (\<lambda>s t. seg_end s \<le> seg_start t) (compute_segments M hh others H)
       \<and> (\<forall>s \<in> set (compute_segments M hh others H).
            \<forall>e \<in> set (header_element hh # others).
              \<not> (el_top e < seg_start s \<and> seg_start s < el_bottom e)
            \<and> \<not> (el_top e < seg_end s \<and> seg_end s < el_bottom e))"
proof -
  let ?segs = "compute_segments M hh others H"
  let ?els = "header_element hh # others"
  have ch: "chain 0 ?segs H" and ends: "seg_end ` set ?segs \<subseteq> el_bottom ` set ?els"
    using compute_segments_chain[OF assms] by simp_all
  have cross_end: "\<not> (el_top e < seg_end s \<and> seg_end s < el_bottom e)"
    if "s \<in> set ?segs" "e \<in> set ?els" for s e
  proof -
    have "seg_end s \<in> el_bottom ` set ?els"
      using ends that(1) by (rule subsetD[OF _ imageI])
    then obtain e0 where "e0 \<in> set ?els" "seg_end s = el_bottom e0"
      by (rule imageE)
    then show ?thesis using sequential_no_crossing[OF assms(2) _ that(2), of e0] by simp
  qed
  have cross_start: "\<not> (el_top e < seg_start s \<and> seg_start s < el_bottom e)"
    if "s \<in> set ?segs" "e \<in> set ?els" for s e
  proof -
    have "seg_start s = 0 \<or> seg_start s \<in> seg_end ` set ?segs"
      by (rule chain_starts[OF ch that(1)])
    then show ?thesis
    proof
      assume "seg_start s = 0"
      then show ?thesis using sequential_tops_nonneg[OF assms(2) that(2)] by simp
    next
      assume "seg_start s \<in> seg_end ` set ?segs"
      then obtain s' where s': "s' \<in> set ?segs" "seg_start s = seg_end s'"
        by (rule imageE)
      show ?thesis using cross_end[OF s'(1) that(2)] s'(2) by simp
    qed
  qed
  have c1: "?segs \<noteq> [] \<longrightarrow> seg_start (hd ?segs) = 0 \<and> seg_end (last ?segs) = H"
    using chain_ends[OF ch] by blast
  have c2: "0 < H \<longrightarrow> ?segs \<noteq> []"
    using chain_nonempty[OF ch] by auto
  have c3: "\<forall>k. Suc k < length ?segs \<longrightarrow> seg_start (?segs ! Suc k) = seg_end (?segs ! k)"
    using chain_contiguous[OF ch] by blast
  have c4: "\<forall>s \<in> set ?segs. seg_start s < seg_end s"
    using chain_positive[OF ch] by blast
  have c5: "sorted_wrt (\<lambda>s t. seg_end s \<le> seg_start t) ?segs"
    by (rule chain_disjoint[OF ch])
  have c6: "\<forall>s \<in> set ?segs. \<forall>e \<in> set ?els.
              \<not> (el_top e < seg_start s \<and> seg_start s < el_bottom e)
            \<and> \<not> (el_top e < seg_end s \<and> seg_end s < el_bottom e)"
    using cross_start cross_end by blast
  from c1 c2 c3 c4 c5 c6 show ?thesis by (intro conjI)
qed



text \<open>
  The theorem at a header of height 400, three items of height 1500, a footer of height 300 and
  a budget of 3333: the pass yields the two segments [0, 1900) and [1900, 5200).
\<close>

theorem segments_partition_document_witness:
  "[\<lparr>el_type = NewsItem, el_top = 400, el_bottom = 1900, el_height = 1500\<rparr>,
    \<lparr>el_type = NewsItem, el_top = 1900, el_bottom = 3400, el_height = 1500\<rparr>,
    \<lparr>el_type = NewsItem, el_top = 3400, el_bottom = 4900, el_height = 1500\<rparr>,
    \<lparr>el_type = Footer, el_top = 4900, el_bottom = 5200, el_height = 300\<rparr>] \<noteq> []
   \<and> sequential (header_element 400 #
       [\<lparr>el_type = NewsItem, el_top = 400, el_bottom = 1900, el_height = 1500\<rparr>,
        \<lparr>el_type = NewsItem, el_top = 1900, el_bottom = 3400, el_height = 1500\<rparr>,
        \<lparr>el_type = NewsItem, el_top = 3400, el_bottom = 4900, el_height = 1500\<rparr>,
        \<lparr>el_type = Footer, el_top = 4900, el_bottom = 5200, el_height = 300\<rparr>])
   \<and> compute_segments 3333 400
       [\<lparr>el_type = NewsItem, el_top = 400, el_bottom = 1900, el_height = 1500\<rparr>,
        \<lparr>el_type = NewsItem, el_top = 1900, el_bottom = 3400, el_height = 1500\<rparr>,
        \<lparr>el_type = NewsItem, el_top = 3400, el_bottom = 4900, el_height = 1500\<rparr>,
        \<lparr>el_type = Footer, el_top = 4900, el_bottom = 5200, el_height = 300\<rparr>] 5200
       = [\<lparr>seg_start = 0, seg_end = 1900, seg_height = 1900, includeHeader = True\<rparr>,
          \<lparr>seg_start = 1900, seg_end = 5200, seg_height = 3300, includeHeader = False\<rparr>]
   \<and> sorted_wrt (\<lambda>s t. seg_end s \<le> seg_start t) (compute_segments 3333 400
       [\<lparr>el_type = NewsItem, el_top = 400, el_bottom = 1900, el_height = 1500\<rparr>,
        \<lparr>el_type = NewsItem, el_top = 1900, el_bottom = 3400, el_height = 1500\<rparr>,
        \<lparr>el_type = NewsItem, el_top = 3400, el_bottom = 4900, el_height = 1500\<rparr>,
        \<lparr>el_type = Footer, el_top = 4900, el_bottom = 5200, el_height = 300\<rparr>] 5200)"
proof -
  let ?others = "[\<lparr>el_type = NewsItem, el_top = 400, el_bottom = 1900, el_height = 1500\<rparr>,
        \<lparr>el_type = NewsItem, el_top = 1900, el_bottom = 3400, el_height = 1500\<rparr>,
        \<lparr>el_type = NewsItem, el_top = 3400, el_bottom = 4900, el_height = 1500\<rparr>,
        \<lparr>el_type = Footer, el_top = 4900, el_bottom = 5200, el_height = (300::real)\<rparr>]"
  have h1: "?others \<noteq> []" by simp
  have h2: "sequential (header_element 400 # ?others)"
    by (simp add: sequential_def header_element_def)
  have h3: "(5200::real) = el_bottom (last ?others)" by simp
  have ev: "compute_segments 3333 400 ?others 5200
       = [\<lparr>seg_start = 0, seg_end = 1900, seg_height = 1900, includeHeader = True\<rparr>,
          \<lparr>seg_start = 1900, seg_end = 5200, seg_height = 3300, includeHeader = False\<rparr>]"
    by (simp add: compute_segments_def header_element_def Let_def)
  have d: "sorted_wrt (\<lambda>s t. seg_end s \<le> seg_start t) (compute_segments 3333 400 ?others 5200)"
    using segments_partition_document[OF h1 h2 h3, of 3333] by (elim conjE)
  from h1 h2 ev d show ?thesis by (intro conjI)
qed

subsection \<open>A block taller than the budget\<close>







section \<open>Rank badge\<close>

text \<open>
  Claim C4. For a record with a non-empty \<open>ranks\<close> list, with \<open>m\<close> its least rank and
  \<open>t\<close> its \<open>rank_threshold\<close> (10 when absent): the tier class of the rank badge is
  \<open>top\<close> exactly when \<open>m \<le> 3\<close>, \<open>high\<close> exactly when \<open>3 < m \<le> t\<close>, and empty
  exactly when \<open>m\<close> exceeds both 3 and \<open>t\<close>. In the hot-list path the badge is the
  \<open>rank-num\<close> span, which the rendered news item holds after the source name; in the
  new-items path it is the \<open>new-item-rank\<close> element, which the rendered new item holds after
  its number. This holds for every rank list and every threshold, so in particular for ranks
  between 1 and 1000 and thresholds 5, 10 and 20.
\<close>

theorem rank_badge_tier:
  assumes "ranks title_data = Some rs" and "rs \<noteq> []"
  shows \<open>(stats_rank_class rs (dict_get (rank_threshold title_data) 10) = ''top''
            \<longleftrightarrow> Min (set rs) \<le> 3)
       \<and> (stats_rank_class rs (dict_get (rank_threshold title_data) 10) = ''high''
            \<longleftrightarrow> 3 < Min (set rs) \<and> Min (set rs) \<le> dict_get (rank_threshold title_data) 10)
       \<and> (stats_rank_class rs (dict_get (rank_threshold title_data) 10) = []
            \<longleftrightarrow> 3 < Min (set rs) \<and> dict_get (rank_threshold title_data) 10 < Min (set rs))
       \<and> stats_rank_html title_data
            = ''<span class="rank-num '' @ stats_rank_class rs (dict_get (rank_threshold title_data) 10)
              @ ''">'' @ stats_rank_text rs @ ''</span>''
       \<and> (new_item_rank_class title_data = ''top'' \<longleftrightarrow> Min (set rs) \<le> 3)
       \<and> (new_item_rank_class title_data = ''high''
            \<longleftrightarrow> 3 < Min (set rs) \<and> Min (set rs) \<le> dict_get (rank_threshold title_data) 10)
       \<and> (new_item_rank_class title_data = []
            \<longleftrightarrow> 3 < Min (set rs) \<and> dict_get (rank_threshold title_data) 10 < Min (set rs))
       \<and> (\<forall>t source_html.
             stats_source_html env display_mode title_data = Inr source_html
             \<and> title title_data = Some t \<longrightarrow>
             render_news_item env display_mode (j, title_data)
               = Inr ((''\<newline>'' @
                       ''                    <div class="news-item '') @ (if dict_get (is_new title_data) False then ''new'' else [])
                      @ (''">\<newline>'' @
                         ''                        <div class="news-number">'') @ str_nat j @ (''</div>\<newline>'' @
                                               ''                        <div class="news-content">\<newline>'' @
                                               ''                            <div class="news-header">'')
                      @ source_html
                      @ ''<span class="rank-num '' @ stats_rank_class rs (dict_get (rank_threshold title_data) 10)
                      @ ''">'' @ stats_rank_text rs @ ''</span>''
                      @ stats_time_html env title_data
                      @ stats_count_html title_data
                      @ (''\<newline>'' @
                         ''                            </div>\<newline>'' @
                         ''                            <div class="news-title">'')
                      @ news_link_html env title_data (html_escape env t)
                      @ (''\<newline>'' @
                         ''                            </div>\<newline>'' @
                         ''                        </div>\<newline>'' @
                         ''                    </div>'')))
       \<and> (\<forall>t. title title_data = Some t \<longrightarrow>
             render_new_item env (idx, title_data)
               = Inr ((''\<newline>'' @
                       ''                        <div class="new-item">\<newline>'' @
                       ''                            <div class="new-item-number">'') @ str_nat idx @ (''</div>\<newline>'' @
                                               ''                            <div class="new-item-rank '') @ new_item_rank_class title_data @ ''">''
                      @ new_item_rank_text title_data @ (''</div>\<newline>'' @
                                                         ''                            <div class="new-item-content">\<newline>'' @
                                                         ''                                <div class="new-item-title">'')
                      @ news_link_html env title_data (html_escape env t)
                      @ (''\<newline>'' @
                         ''                                </div>\<newline>'' @
                         ''                            </div>\<newline>'' @
                         ''                        </div>'')))\<close>
  (is "?A \<and> ?B \<and> ?C \<and> ?D \<and> ?E \<and> ?F \<and> ?G \<and> ?H \<and> ?I")
proof -
  let ?t = "dict_get (rank_threshold title_data) 10"
  have m: "list_min rs = Min (set rs)"
    by (rule list_min_Min[OF assms(2)])
  have rs: "dict_get (ranks title_data) [] = rs"
    using assms(1) by (simp add: dict_get_def)
  have new: "new_item_rank_class title_data = stats_rank_class rs ?t"
    using assms(2) by (simp add: new_item_rank_class_def stats_rank_class_def rs Let_def)
  have badge: ?D
    using assms(2) by (simp add: stats_rank_html_def rs Let_def)
  note tiers = rank_class_tiers[of rs ?t, unfolded m]
  have a: ?A by (rule tiers[THEN conjunct1])
  have b: ?B by (rule tiers[THEN conjunct2, THEN conjunct1])
  have c: ?C by (rule tiers[THEN conjunct2, THEN conjunct2])
  have e: ?E unfolding new by (rule a)
  have f: ?F unfolding new by (rule b)
  have g: ?G unfolding new by (rule c)
  have h: ?H
    using badge by (simp add: render_news_item_def err_bind_def subscript_def Let_def)
  have i: ?I
    by (simp add: render_new_item_def err_bind_def subscript_def)
  from a b c badge e f g h i show ?thesis by (intro conjI)
qed

text \<open>
  The theorem at ranks 2 and 5 with threshold 10: the class is \<open>top\<close>, in the badge of the
  hot-list item and in the badge of the new item.
\<close>

theorem rank_badge_tier_witness:
  \<open>ranks (empty_item\<lparr>ranks := Some [2, 5], rank_threshold := Some 10\<rparr>) = Some [2, 5]
   \<and> [2, 5] \<noteq> ([] :: int list)
   \<and> stats_rank_class [2, 5] 10 = ''top''
   \<and> new_item_rank_class (empty_item\<lparr>ranks := Some [2, 5], rank_threshold := Some 10\<rparr>) = ''top''
   \<and> stats_rank_html (empty_item\<lparr>ranks := Some [2, 5], rank_threshold := Some 10\<rparr>)
        = ''<span class="rank-num top">2-5</span>''
   \<and> render_news_item example_env ''keyword''
        (1, empty_item\<lparr>title := Some ''T'', source_name := Some ''zhihu'', ranks := Some [2, 5],
                        rank_threshold := Some 10\<rparr>)
        = Inr ((''\<newline>'' @
                ''                    <div class="news-item '') @ (''">\<newline>'' @
                          ''                        <div class="news-number">'') @ ''1'' @ (''</div>\<newline>'' @
                                            ''                        <div class="news-content">\<newline>'' @
                                            ''                            <div class="news-header">'')
               @ ''<span class="source-name">zhihu</span>''
               @ ''<span class="rank-num top">2-5</span>''
               @ (''\<newline>'' @
                  ''                            </div>\<newline>'' @
                  ''                            <div class="news-title">'') @ ''T'' @ (''\<newline>'' @
                                    ''                            </div>\<newline>'' @
                                    ''                        </div>\<newline>'' @
                                    ''                    </div>''))
   \<and> render_new_item example_env
        (1, empty_item\<lparr>title := Some ''T'', source_name := Some ''zhihu'', ranks := Some [2, 5],
                        rank_threshold := Some 10\<rparr>)
        = Inr ((''\<newline>'' @
                ''                        <div class="new-item">\<newline>'' @
                ''                            <div class="new-item-number">'') @ ''1'' @ (''</div>\<newline>'' @
                                  ''                            <div class="new-item-rank '') @ ''top'' @ ''">'' @ ''2-5'' @ (''</div>\<newline>'' @
                                                                          ''                            <div class="new-item-content">\<newline>'' @
                                                                          ''                                <div class="new-item-title">'') @ ''T'' @ (''\<newline>'' @
                                                                                            ''                                </div>\<newline>'' @
                                                                                            ''                            </div>\<newline>'' @
                                                                                            ''                        </div>''))\<close>
proof -
  let ?td = "empty_item\<lparr>ranks := Some [2, 5], rank_threshold := Some 10\<rparr>"
  let ?full = "empty_item\<lparr>title := Some ''T'', source_name := Some ''zhihu'', ranks := Some [2, 5],
                           rank_threshold := Some 10\<rparr>"
  have h1: "ranks ?td = Some [2, 5]" by (simp add: empty_item_def)
  have h2: "[2, 5] \<noteq> ([] :: int list)" by simp
  have thr: "dict_get (rank_threshold ?td) 10 = 10" by (simp add: dict_get_def empty_item_def)
  have shown: "stats_rank_text [2, 5] = ''2-5''"
    by (simp add: stats_rank_text_def str_int_def digit_char_def)
  have mn: "Min (set [2, 5 :: int]) \<le> 3" by simp
  note t = rank_badge_tier[OF h1 h2, of example_env "''keyword''" 1 1, unfolded thr]
  have c1: "stats_rank_class [2, 5] 10 = ''top''"
    using t mn by (elim conjE) simp
  have c2: "new_item_rank_class ?td = ''top''"
    using t mn by (elim conjE) simp
  have c3: \<open>stats_rank_html ?td = ''<span class="rank-num top">2-5</span>''\<close>
    using t c1 shown by (elim conjE) simp
  have f1: "ranks ?full = Some [2, 5]" by (simp add: empty_item_def)
  have fthr: "dict_get (rank_threshold ?full) 10 = 10" by (simp add: dict_get_def empty_item_def)
  have src: \<open>stats_source_html example_env ''keyword'' ?full
       = Inr ''<span class="source-name">zhihu</span>''\<close>
    by (simp add: stats_source_html_def err_bind_def subscript_def empty_item_def example_env_def)
  have ttl: "title ?full = Some ''T''" by (simp add: empty_item_def)
  have new_text: "new_item_rank_text ?full = ''2-5''"
    by (simp add: new_item_rank_text_def dict_get_def empty_item_def str_int_def digit_char_def)
  have link: "news_link_html example_env ?full (html_escape example_env ''T'') = ''T''"
    by (simp add: news_link_html_def news_link_url_def dict_get_def empty_item_def example_env_def)
  have quiet: "stats_time_html example_env ?full = [] \<and> stats_count_html ?full = []
      \<and> dict_get (is_new ?full) False = False"
    by (simp add: stats_time_html_def stats_count_html_def dict_get_def empty_item_def)
  note u = rank_badge_tier[OF f1 h2, of example_env "''keyword''" 1 1, unfolded fthr]
  have fc: "new_item_rank_class ?full = ''top''"
    using u mn by (elim conjE) simp
  have c4: \<open>render_news_item example_env ''keyword'' (1, ?full)
        = Inr ((''\<newline>'' @
                ''                    <div class="news-item '') @ (''">\<newline>'' @
                          ''                        <div class="news-number">'') @ ''1'' @ (''</div>\<newline>'' @
                                            ''                        <div class="news-content">\<newline>'' @
                                            ''                            <div class="news-header">'')
               @ ''<span class="source-name">zhihu</span>''
               @ ''<span class="rank-num top">2-5</span>''
               @ (''\<newline>'' @
                  ''                            </div>\<newline>'' @
                  ''                            <div class="news-title">'') @ ''T'' @ (''\<newline>'' @
                                    ''                            </div>\<newline>'' @
                                    ''                        </div>\<newline>'' @
                                    ''                    </div>''))\<close>
    using u src ttl c1 shown link quiet by (elim conjE) (simp add: digit_char_def)
  have c5: \<open>render_new_item example_env (1, ?full)
        = Inr ((''\<newline>'' @
                ''                        <div class="new-item">\<newline>'' @
                ''                            <div class="new-item-number">'') @ ''1'' @ (''</div>\<newline>'' @
                                  ''                            <div class="new-item-rank '') @ ''top'' @ ''">'' @ ''2-5'' @ (''</div>\<newline>'' @
                                                                          ''                            <div class="new-item-content">\<newline>'' @
                                                                          ''                                <div class="new-item-title">'') @ ''T'' @ (''\<newline>'' @
                                                                                            ''                                </div>\<newline>'' @
                                                                                            ''                            </div>\<newline>'' @
                                                                                            ''                        </div>''))\<close>
    using u ttl fc new_text link by (elim conjE) (simp add: digit_char_def)
  from h1 h2 c1 c2 c3 c4 c5 show ?thesis by (intro conjI)
qed

text \<open>
  Claim C5 fails in the new-items path. The hot-list path (lines 873-876) and the standalone
  path (lines 1198-1201) compare \<open>min_rank\<close> with \<open>max_rank\<close>; the new-items path (lines
  954-957) tests \<open>len(ranks) == 1\<close> instead, so a rank list that repeats one rank, here
  \<open>[2, 2]\<close>, is shown as \<open>2-2\<close> where the other two paths show \<open>2\<close>.
\<close>

theorem new_item_rank_text_repeated_rank:
  "new_item_rank_text (empty_item\<lparr>ranks := Some [2, 2]\<rparr>) = ''2-2''
   \<and> stats_rank_text [2, 2] = ''2''
   \<and> standalone_rank_text [2, 2] = ''2''"
  by (simp add: new_item_rank_text_def stats_rank_text_def standalone_rank_text_def
      empty_item_def dict_get_def str_int_def digit_char_def)

text \<open>
  The hot-list and standalone paths do what claim C5 says, for every non-empty rank list.
\<close>

lemma rank_text_min_max:
  assumes "rs \<noteq> []"
  shows "stats_rank_text rs =
           (if Min (set rs) = Max (set rs) then str_int (Min (set rs))
            else str_int (Min (set rs)) @ ''-'' @ str_int (Max (set rs)))"
    and "standalone_rank_text rs = stats_rank_text rs"
  by (simp_all add: stats_rank_text_def standalone_rank_text_def
      list_min_Min[OF assms] list_max_Max[OF assms])

section \<open>Time range of a standalone platform item\<close>

text \<open>
  Claim C6, as amended. With \<open>first\<close> and \<open>last\<close> the values of \<open>first_time\<close> and
  \<open>last_time\<close> (empty when absent): when both are present and differ, the time element shows
  \<open>first~last\<close>; otherwise, when \<open>first\<close> is present, it shows \<open>first\<close> alone; when
  \<open>first\<close> is absent no time element is written, whether \<open>last\<close> is present or not. The
  tokens pass through \<open>convert_time_for_display\<close> and \<open>html_escape\<close>.
\<close>

theorem standalone_time_range:
  \<open>(dict_get (first_time it) [] \<noteq> [] \<and> dict_get (last_time it) [] \<noteq> []
       \<and> dict_get (first_time it) [] \<noteq> dict_get (last_time it) []
     \<longrightarrow> standalone_time_html env it
           = ''<span class="time-info">''
             @ html_escape env (convert_time_for_display env (dict_get (first_time it) []))
             @ ''~''
             @ html_escape env (convert_time_for_display env (dict_get (last_time it) []))
             @ ''</span>'')
   \<and> (dict_get (first_time it) [] \<noteq> []
       \<and> (dict_get (last_time it) [] = []
            \<or> dict_get (last_time it) [] = dict_get (first_time it) [])
     \<longrightarrow> standalone_time_html env it
           = ''<span class="time-info">''
             @ html_escape env (convert_time_for_display env (dict_get (first_time it) []))
             @ ''</span>'')
   \<and> (dict_get (first_time it) [] = [] \<longrightarrow> standalone_time_html env it = [])\<close>
  by (auto simp: standalone_time_html_def Let_def)

text \<open>The theorem at \<open>08:00\<close> and \<open>12:30\<close>, at \<open>08:00\<close> alone, and at no time.\<close>

theorem standalone_time_range_witness:
  \<open>standalone_time_html example_env
       (empty_item\<lparr>first_time := Some ''08:00'', last_time := Some ''12:30''\<rparr>)
     = ''<span class="time-info">08:00~12:30</span>''
   \<and> standalone_time_html example_env (empty_item\<lparr>first_time := Some ''08:00''\<rparr>)
     = ''<span class="time-info">08:00</span>''
   \<and> standalone_time_html example_env empty_item = []\<close>
proof -
  let ?a = "empty_item\<lparr>first_time := Some ''08:00'', last_time := Some ''12:30''\<rparr>"
  let ?b = "empty_item\<lparr>first_time := Some ''08:00''\<rparr>"
  have a: \<open>standalone_time_html example_env ?a = ''<span class="time-info">08:00~12:30</span>''\<close>
    using standalone_time_range[of ?a example_env]
    by (simp add: empty_item_def dict_get_def example_env_def)
  have b: \<open>standalone_time_html example_env ?b = ''<span class="time-info">08:00</span>''\<close>
    using standalone_time_range[of ?b example_env]
    by (simp add: empty_item_def dict_get_def example_env_def)
  have c: "standalone_time_html example_env empty_item = []"
    using standalone_time_range[of empty_item example_env]
    by (simp add: empty_item_def dict_get_def)
  from a b c show ?thesis by (intro conjI)
qed

text \<open>
  Claim C6 as stated fails: an item with \<open>last_time\<close> only gets no time element, where the
  claim has \<open>12:30\<close> shown alone.
\<close>

theorem standalone_last_time_alone_not_shown:
  "standalone_time_html example_env (empty_item\<lparr>last_time := Some ''12:30''\<rparr>) = []"
  by (simp add: standalone_time_html_def empty_item_def dict_get_def)

section \<open>Link target\<close>

text \<open>
  Claim C7, as amended. In the hot-list and new-items paths a non-empty \<open>mobile_url\<close> is the
  link target whatever \<open>url\<close> holds, and \<open>url\<close> is used when \<open>mobile_url\<close> is absent or
  empty. In the standalone path the order is the other one: a non-empty \<open>url\<close> is the link
  target whatever \<open>mobileUrl\<close> holds, and \<open>mobileUrl\<close> is used when \<open>url\<close> is absent or
  empty. In all three paths an empty link value gives the escaped title alone, with no link
  element, and a non-empty one gives the title inside a link to the escaped target.
\<close>

theorem link_target_precedence:
  \<open>(\<forall>m. mobile_url title_data = Some m \<and> m \<noteq> [] \<longrightarrow> news_link_url title_data = m)
   \<and> (dict_get (mobile_url title_data) [] = []
        \<longrightarrow> news_link_url title_data = dict_get (url title_data) [])
   \<and> (\<forall>u. url it = Some u \<and> u \<noteq> [] \<longrightarrow> standalone_link_url it = u)
   \<and> (dict_get (url it) [] = [] \<longrightarrow> standalone_link_url it = dict_get (mobileUrl it) [])
   \<and> (news_link_url title_data = [] \<longrightarrow> news_link_html env title_data escaped_title = escaped_title)
   \<and> (news_link_url title_data \<noteq> [] \<longrightarrow>
         news_link_html env title_data escaped_title
           = ''<a href="'' @ html_escape env (news_link_url title_data) @ ''" target="_blank" class="news-link">'' @ escaped_title @ ''</a>'')
   \<and> (standalone_link_url it = [] \<longrightarrow>
         standalone_link_html env it = html_escape env (dict_get (title it) []))
   \<and> (standalone_link_url it \<noteq> [] \<longrightarrow>
         standalone_link_html env it
           = ''<a href="'' @ html_escape env (standalone_link_url it) @ ''" target="_blank" class="news-link">''
             @ html_escape env (dict_get (title it) []) @ ''</a>'')\<close>
  by (auto simp: news_link_url_def standalone_link_url_def news_link_html_def
      standalone_link_html_def dict_get_def Let_def split: option.splits)

text \<open>
  The theorem at a hot-list record and a standalone item that both carry a regular and a mobile
  address, and at a record with neither.
\<close>

theorem link_target_precedence_witness:
  \<open>news_link_html example_env
       (empty_item\<lparr>url := Some ''https://example.com/d'',
                    mobile_url := Some ''https://m.example.com/d''\<rparr>) ''T''
     = ''<a href="https://m.example.com/d" target="_blank" class="news-link">T</a>''
   \<and> standalone_link_url
       (empty_item\<lparr>url := Some ''https://example.com/d'',
                    mobileUrl := Some ''https://m.example.com/d''\<rparr>)
     = ''https://example.com/d''
   \<and> news_link_html example_env empty_item ''T'' = ''T''
   \<and> standalone_link_html example_env (empty_item\<lparr>title := Some ''T''\<rparr>) = ''T''\<close>
proof -
  let ?hot = "empty_item\<lparr>url := Some ''https://example.com/d'',
                           mobile_url := Some ''https://m.example.com/d''\<rparr>"
  let ?alone = "empty_item\<lparr>url := Some ''https://example.com/d'',
                             mobileUrl := Some ''https://m.example.com/d''\<rparr>"
  let ?bare = "empty_item\<lparr>title := Some ''T''\<rparr>"
  have a: \<open>news_link_html example_env ?hot ''T''
       = ''<a href="https://m.example.com/d" target="_blank" class="news-link">T</a>''\<close>
    using link_target_precedence[of ?hot ?alone example_env "''T''"]
    by (simp add: empty_item_def example_env_def)
  have b: "standalone_link_url ?alone = ''https://example.com/d''"
    using link_target_precedence[of ?hot ?alone example_env "''T''"]
    by (simp add: empty_item_def)
  have c: "news_link_html example_env empty_item ''T'' = ''T''"
    using link_target_precedence[of empty_item ?bare example_env "''T''"]
    by (simp add: empty_item_def dict_get_def)
  have d: "standalone_link_html example_env ?bare = ''T''"
    using link_target_precedence[of empty_item ?bare example_env "''T''"]
    by (simp add: empty_item_def dict_get_def example_env_def)
  from a b c d show ?thesis by (intro conjI)
qed

text \<open>
  Claim C7 as stated fails in the standalone path: for a platform item that carries both
  addresses the link goes to \<open>url\<close>, not to \<open>mobileUrl\<close>.
\<close>

theorem standalone_link_prefers_url:
  \<open>standalone_link_html example_env
     (empty_item\<lparr>title := Some ''T'', url := Some ''https://example.com/d'',
                  mobileUrl := Some ''https://m.example.com/d''\<rparr>)
   = ''<a href="https://example.com/d" target="_blank" class="news-link">T</a>''\<close>
  by (simp add: standalone_link_html_def standalone_link_url_def empty_item_def dict_get_def
      example_env_def)

section \<open>Timestamp of a standalone feed item\<close>

text \<open>
  Claim C9, as amended. For a feed item with a non-empty \<open>published_at\<close>: only a string that
  contains the letter \<open>T\<close> is parsed. Such a string is handed to \<open>fromisoformat\<close> with
  every \<open>Z\<close> replaced by \<open>+00:00\<close>; when the parser accepts it, the time element shows the
  parsed month, day, hour and minute as \<open>MM-DD HH:MM\<close>, two digits each, and when the parser
  rejects it, the time element shows the raw string. A string without \<open>T\<close> is never handed
  to the parser and is shown raw, even when it is a full ISO timestamp that the parser would
  accept. The shown text passes through \<open>html_escape\<close>. The renderer of a feed item has no
  failing branch: it is a total function to strings.
\<close>

theorem feed_timestamp_display:
  assumes "published_at it = Some p" and "p \<noteq> []"
  shows \<open>(\<forall>d. CHR ''T'' \<in> set p
              \<and> fromisoformat env
                   (concat (map (\<lambda>c. if c = CHR ''Z'' then ''+00:00'' else [c]) p)) = Some d \<longrightarrow>
            feed_time_html env it
              = ''<span class="time-info">''
                @ html_escape env
                    (pad2 (dt_month d) @ ''-'' @ pad2 (dt_day d) @ '' ''
                     @ pad2 (dt_hour d) @ '':'' @ pad2 (dt_minute d))
                @ ''</span>'')
       \<and> (CHR ''T'' \<in> set p
            \<and> fromisoformat env
                 (concat (map (\<lambda>c. if c = CHR ''Z'' then ''+00:00'' else [c]) p)) = None \<longrightarrow>
            feed_time_html env it = ''<span class="time-info">'' @ html_escape env p @ ''</span>'')
       \<and> (CHR ''T'' \<notin> set p \<longrightarrow>
            feed_time_html env it = ''<span class="time-info">'' @ html_escape env p @ ''</span>'')
       \<and> (\<forall>n < 100. pad2 n = [''0123456789'' ! (n div 10), ''0123456789'' ! (n mod 10)])\<close>
proof -
  have shown: \<open>feed_time_html env it
      = ''<span class="time-info">'' @ html_escape env (feed_time_display env p) @ ''</span>''\<close>
    using assms by (simp add: feed_time_html_def dict_get_def Let_def)
  have display: "feed_time_display env p =
      (if CHR ''T'' \<in> set p then
         (case fromisoformat env
                 (concat (map (\<lambda>c. if c = CHR ''Z'' then ''+00:00'' else [c]) p)) of
            Some d \<Rightarrow> strftime_md_hm d
          | None \<Rightarrow> p)
       else p)"
    by (simp add: feed_time_display_def str_in_single str_replace_single)
  show ?thesis
    unfolding shown display
    by (simp add: strftime_md_hm_def pad2_two_digits)
qed

text \<open>
  The theorem at \<open>2025-01-07T08:00:00Z\<close>, which the example parser accepts once \<open>Z\<close> is
  replaced, and at \<open>2025-01-07T24:00:00\<close>, which it rejects.
\<close>

theorem feed_timestamp_display_witness:
  \<open>feed_time_html example_env (empty_item\<lparr>published_at := Some ''2025-01-07T08:00:00Z''\<rparr>)
     = ''<span class="time-info">01-07 08:00</span>''
   \<and> feed_time_html example_env (empty_item\<lparr>published_at := Some ''2025-01-07T24:00:00''\<rparr>)
     = ''<span class="time-info">2025-01-07T24:00:00</span>''\<close>
proof -
  let ?a = "empty_item\<lparr>published_at := Some ''2025-01-07T08:00:00Z''\<rparr>"
  let ?b = "empty_item\<lparr>published_at := Some ''2025-01-07T24:00:00''\<rparr>"
  have a1: "published_at ?a = Some ''2025-01-07T08:00:00Z''" by (simp add: empty_item_def)
  have b1: "published_at ?b = Some ''2025-01-07T24:00:00''" by (simp add: empty_item_def)
  have pa: "fromisoformat example_env ''2025-01-07T08:00:00+00:00''
      = Some \<lparr>dt_year = 2025, dt_month = 1, dt_day = 7, dt_hour = 8, dt_minute = 0,
               dt_second = 0\<rparr>"
    by (simp add: example_env_def fromisoformat_seconds_def digits_val_def days_in_month_def
        offset_ok_def)
  have pb: "fromisoformat example_env ''2025-01-07T24:00:00'' = None"
    by (simp add: example_env_def fromisoformat_seconds_def digits_val_def days_in_month_def
        offset_ok_def)
  have esc: "html_escape example_env = (\<lambda>s. s)" by (simp add: example_env_def)
  have a: \<open>feed_time_html example_env ?a = ''<span class="time-info">01-07 08:00</span>''\<close>
    using feed_timestamp_display[OF a1, of example_env] pa
    by (simp add: esc pad2_def digit_char_def)
  have b: \<open>feed_time_html example_env ?b = ''<span class="time-info">2025-01-07T24:00:00</span>''\<close>
    using feed_timestamp_display[OF b1, of example_env] pb
    by (simp add: esc)
  from a b show ?thesis by (intro conjI)
qed

text \<open>
  Claim C9 as stated fails for a full ISO timestamp written with a space: the parser accepts
  \<open>2025-01-07 08:00:00\<close>, but the string contains no \<open>T\<close>, so line 1276 sends it to the
  raw branch and the time element shows the whole string, where the claim has \<open>01-07 08:00\<close>.
\<close>

theorem feed_timestamp_without_T_shown_raw:
  \<open>fromisoformat example_env ''2025-01-07 08:00:00''
     = Some \<lparr>dt_year = 2025, dt_month = 1, dt_day = 7, dt_hour = 8, dt_minute = 0,
              dt_second = 0\<rparr>
   \<and> feed_time_html example_env (empty_item\<lparr>published_at := Some ''2025-01-07 08:00:00''\<rparr>)
     = ''<span class="time-info">2025-01-07 08:00:00</span>''\<close>
  by (simp add: example_env_def fromisoformat_seconds_def digits_val_def days_in_month_def
      offset_ok_def feed_time_html_def feed_time_display_def str_in_def empty_item_def
      dict_get_def)

section \<open>Absent fields\<close>

lemma raises_Inr: "\<not> raises (Inr v)"
  by (simp add: raises_def)

lemma raises_Inl: "raises (Inl e)"
  by (simp add: raises_def)

lemma raises_subscript: "raises (subscript key v) \<longleftrightarrow> v = None"
  by (cases v) (simp_all add: raises_def subscript_def)

lemma subscript_Some: "subscript key (Some x) = Inr x"
  by (simp add: subscript_def)

lemma raises_err_bind:
  "raises (err_bind r f) \<longleftrightarrow> (case r of Inl e \<Rightarrow> True | Inr v \<Rightarrow> raises (f v))"
  by (cases r) (simp_all add: raises_def err_bind_def)

lemma raises_join_results: "raises (join_results rs) \<longleftrightarrow> (\<exists>r \<in> set rs. raises r)"
  by (induction rs) (auto simp: raises_def split: sum.splits)

lemma raises_join_enumerate:
  assumes "\<And>j x. raises (f (j, x)) \<longleftrightarrow> \<not> P x"
  shows "raises (join_results (map f (enumerate n xs))) \<longleftrightarrow> \<not> list_all P xs"
proof (induction xs arbitrary: n)
  case Nil
  then show ?case by (simp add: raises_Inr)
next
  case (Cons x xs)
  have "raises (join_results (map f (enumerate n (x # xs))))
      \<longleftrightarrow> raises (f (n, x)) \<or> raises (join_results (map f (enumerate (Suc n) xs)))"
    by (simp add: raises_join_results del: join_results.simps)
  then show ?case by (simp add: assms Cons.IH)
qed

lemma raises_stats_source_html:
  "raises (stats_source_html env display_mode title_data)
     \<longleftrightarrow> display_mode = ''keyword'' \<and> source_name title_data = None"
  by (simp add: stats_source_html_def raises_err_bind raises_subscript raises_Inr Let_def
      split: sum.splits)
     (auto simp: subscript_def raises_def split: option.splits)

lemma raises_render_news_item:
  "raises (render_news_item env display_mode (j, title_data))
     \<longleftrightarrow> \<not> news_item_keys display_mode title_data"
proof (cases "raises (stats_source_html env display_mode title_data)")
  case True
  then show ?thesis
    using raises_stats_source_html[of env display_mode title_data]
    by (cases "stats_source_html env display_mode title_data")
       (simp_all add: render_news_item_def news_item_keys_def err_bind_def raises_def Let_def)
next
  case False
  then obtain source_html where s: "stats_source_html env display_mode title_data = Inr source_html"
    by (cases "stats_source_html env display_mode title_data") (simp_all add: raises_def)
  have keys: "display_mode = ''keyword'' \<longrightarrow> source_name title_data \<noteq> None"
    using False raises_stats_source_html[of env display_mode title_data] by simp
  show ?thesis
    using keys
    by (cases "title title_data")
       (simp_all add: render_news_item_def news_item_keys_def s err_bind_def subscript_def
        raises_def Let_def)
qed

lemma raises_render_word_group:
  "raises (render_word_group env display_mode total_count (i, st))
     \<longleftrightarrow> \<not> word_group_keys display_mode st"
proof (cases "stat_count st")
  case None
  then show ?thesis
    by (simp add: render_word_group_def word_group_keys_def err_bind_def subscript_def raises_def)
next
  case count: (Some cnt)
  show ?thesis
  proof (cases "word st")
    case None
    then show ?thesis
      by (simp add: render_word_group_def word_group_keys_def count err_bind_def subscript_def
          raises_def Let_def)
  next
    case word: (Some w)
    show ?thesis
    proof (cases "titles st")
      case None
      then show ?thesis
        by (simp add: render_word_group_def word_group_keys_def count word err_bind_def
            subscript_def raises_def Let_def)
    next
      case (Some ts)
      have items: "raises (join_results (map (render_news_item env display_mode) (enumerate 1 ts)))
          \<longleftrightarrow> \<not> list_all (news_item_keys display_mode) ts"
        by (rule raises_join_enumerate) (rule raises_render_news_item)
      have "raises (render_word_group env display_mode total_count (i, st))
          \<longleftrightarrow> raises (join_results (map (render_news_item env display_mode) (enumerate 1 ts)))"
        by (cases "join_results (map (render_news_item env display_mode) (enumerate 1 ts))")
           (simp_all add: render_word_group_def count word Some err_bind_def subscript_def
            raises_def Let_def)
      then show ?thesis
        using items by (simp add: word_group_keys_def count word Some)
    qed
  qed
qed

lemma raises_render_stats_html:
  "raises (render_stats_html env display_mode sts)
     \<longleftrightarrow> \<not> list_all (word_group_keys display_mode) sts"
proof -
  have groups: "raises (join_results
        (map (render_word_group env display_mode (length sts)) (enumerate 1 sts)))
      \<longleftrightarrow> \<not> list_all (word_group_keys display_mode) sts"
    by (rule raises_join_enumerate) (rule raises_render_word_group)
  have "raises (render_stats_html env display_mode sts)
      \<longleftrightarrow> raises (join_results
            (map (render_word_group env display_mode (length sts)) (enumerate 1 sts)))"
    by (cases "join_results
          (map (render_word_group env display_mode (length sts)) (enumerate 1 sts))")
       (simp_all add: render_stats_html_def err_bind_def raises_def)
  then show ?thesis using groups by simp
qed

lemma raises_render_new_item:
  "raises (render_new_item env (idx, title_data)) \<longleftrightarrow> \<not> (title title_data \<noteq> None)"
  by (cases "title title_data")
     (simp_all add: render_new_item_def err_bind_def subscript_def raises_def)

lemma raises_render_new_source:
  "raises (render_new_source env sd) \<longleftrightarrow> \<not> new_source_keys sd"
proof (cases "sd_source_name sd")
  case None
  then show ?thesis
    by (simp add: render_new_source_def new_source_keys_def err_bind_def subscript_def raises_def)
next
  case name: (Some n)
  show ?thesis
  proof (cases "sd_titles sd")
    case None
    then show ?thesis
      by (simp add: render_new_source_def new_source_keys_def name err_bind_def subscript_def
          raises_def)
  next
    case (Some ts)
    have items: "raises (join_results (map (render_new_item env) (enumerate 1 ts)))
        \<longleftrightarrow> \<not> list_all (\<lambda>title_data. title title_data \<noteq> None) ts"
      by (rule raises_join_enumerate) (rule raises_render_new_item)
    have "raises (render_new_source env sd)
        \<longleftrightarrow> raises (join_results (map (render_new_item env) (enumerate 1 ts)))"
      by (cases "join_results (map (render_new_item env) (enumerate 1 ts))")
         (simp_all add: render_new_source_def name Some err_bind_def subscript_def raises_def)
    then show ?thesis
      using items by (simp add: new_source_keys_def name Some)
  qed
qed

lemma raises_render_new_titles_html:
  "raises (render_new_titles_html env show_new_section report_data)
     \<longleftrightarrow> show_new_section \<and> new_titles report_data \<noteq> []
         \<and> \<not> list_all new_source_keys (new_titles report_data)"
proof (cases "show_new_section \<and> new_titles report_data \<noteq> []")
  case False
  then show ?thesis
    by (auto simp: render_new_titles_html_def raises_def)
next
  case True
  have groups: "raises (join_results (map (render_new_source env) (new_titles report_data)))
      \<longleftrightarrow> \<not> list_all new_source_keys (new_titles report_data)"
    by (simp add: raises_join_results raises_render_new_source list_all_iff)
  have "raises (render_new_titles_html env show_new_section report_data)
      \<longleftrightarrow> raises (join_results (map (render_new_source env) (new_titles report_data)))"
    using True
    by (cases "join_results (map (render_new_source env) (new_titles report_data))")
       (simp_all add: render_new_titles_html_def err_bind_def raises_def)
  then show ?thesis using True by (simp add: groups)
qed

lemma raises_hot_news_count:
  "raises (hot_news_count sts) \<longleftrightarrow> (\<exists>st \<in> set sts. titles st = None)"
proof (induction sts)
  case Nil
  then show ?case by (simp add: raises_def)
next
  case (Cons st sts)
  show ?case
  proof (cases "titles st")
    case None
    then show ?thesis by (simp add: err_bind_def subscript_def raises_def)
  next
    case (Some ts)
    then show ?thesis
      using Cons.IH
      by (cases "hot_news_count sts") (simp_all add: err_bind_def subscript_def raises_def)
  qed
qed

lemma word_group_keys_titles:
  "list_all (word_group_keys display_mode) sts \<Longrightarrow> \<not> raises (hot_news_count sts)"
  by (auto simp: raises_hot_news_count list_all_iff word_group_keys_def split: option.splits)

text \<open>
  Claim C8, as amended. \<open>render_html_content\<close> raises no exception exactly when every word
  group of \<open>stats\<close> carries \<open>count\<close>, \<open>word\<close> and \<open>titles\<close>, every news record in
  it carries \<open>title\<close> and, in keyword mode, \<open>source_name\<close>, and, when the new-items
  section is shown and not empty, every source group of \<open>new_titles\<close> carries
  \<open>source_name\<close> and \<open>titles\<close> and every record in it carries \<open>title\<close>. No other
  key is needed: an absent \<open>matched_keyword\<close>, \<open>ranks\<close>, \<open>rank_threshold\<close>,
  \<open>time_display\<close>, \<open>count\<close>, \<open>url\<close>, \<open>mobile_url\<close> or \<open>is_new\<close> of a news record,
  and any absent key of an RSS record or of a standalone item, leaves out the element or takes
  the default. An absent \<open>title\<close>, or an absent \<open>source_name\<close> in keyword mode, in the
  hot-list or new-items path raises \<open>KeyError\<close>.
\<close>

theorem render_raises_only_on_subscripted_keys:
  "\<not> raises (render_html_content env datetime_now report_data total_titles mode update_info
        region_order get_time_func rss_items rss_new_items display_mode standalone_data ai
        show_new_section)
   \<longleftrightarrow> list_all (word_group_keys display_mode) (stats report_data)
       \<and> (show_new_section \<and> new_titles report_data \<noteq> []
            \<longrightarrow> list_all new_source_keys (new_titles report_data))"
proof (cases "list_all (word_group_keys display_mode) (stats report_data)")
  case False
  then have bad: "raises (render_stats_html env display_mode (stats report_data))"
    by (simp add: raises_render_stats_html)
  have "raises (render_html_content env datetime_now report_data total_titles mode update_info
        region_order get_time_func rss_items rss_new_items display_mode standalone_data ai
        show_new_section)"
    using bad
    by (cases "hot_news_count (stats report_data)";
        cases "render_stats_html env display_mode (stats report_data)")
       (simp_all add: render_html_content_def err_bind_def raises_def Let_def)
  then show ?thesis using False by simp
next
  case True
  then obtain hot where hot: "hot_news_count (stats report_data) = Inr hot"
    using word_group_keys_titles[OF True]
    by (cases "hot_news_count (stats report_data)") (simp_all add: raises_def)
  from True obtain stats_html
    where st: "render_stats_html env display_mode (stats report_data) = Inr stats_html"
    using raises_render_stats_html[of env display_mode "stats report_data"]
    by (cases "render_stats_html env display_mode (stats report_data)") (simp_all add: raises_def)
  have "raises (render_html_content env datetime_now report_data total_titles mode update_info
        region_order get_time_func rss_items rss_new_items display_mode standalone_data ai
        show_new_section)
      \<longleftrightarrow> raises (render_new_titles_html env show_new_section report_data)"
    by (cases "render_new_titles_html env show_new_section report_data")
       (simp_all add: render_html_content_def hot st err_bind_def raises_def Let_def)
  then show ?thesis
    using True by (auto simp: raises_render_new_titles_html)
qed

text \<open>
  The theorem at a report whose only hot-list record and only new-items record carry nothing
  but \<open>title\<close> (and \<open>source_name\<close>): rendering raises nothing.
\<close>

theorem render_raises_only_on_subscripted_keys_witness:
  "list_all (word_group_keys ''keyword'')
     (stats \<lparr>stats = [\<lparr>word = Some ''AI'', stat_count = Some 1,
                         titles = Some [empty_item\<lparr>title := Some ''T'',
                                                   source_name := Some ''zhihu''\<rparr>]\<rparr>],
             new_titles = [\<lparr>sd_source_name = Some ''zhihu'',
                              sd_titles = Some [empty_item\<lparr>title := Some ''T''\<rparr>]\<rparr>],
             failed_ids = [], total_new_count = 1\<rparr>)
   \<and> list_all new_source_keys
     (new_titles \<lparr>stats = [\<lparr>word = Some ''AI'', stat_count = Some 1,
                              titles = Some [empty_item\<lparr>title := Some ''T'',
                                                        source_name := Some ''zhihu''\<rparr>]\<rparr>],
                  new_titles = [\<lparr>sd_source_name = Some ''zhihu'',
                                   sd_titles = Some [empty_item\<lparr>title := Some ''T''\<rparr>]\<rparr>],
                  failed_ids = [], total_new_count = 1\<rparr>)
   \<and> \<not> raises (render_html_content example_env
        \<lparr>dt_year = 2025, dt_month = 1, dt_day = 7, dt_hour = 8, dt_minute = 0, dt_second = 0\<rparr>
        \<lparr>stats = [\<lparr>word = Some ''AI'', stat_count = Some 1,
                    titles = Some [empty_item\<lparr>title := Some ''T'',
                                              source_name := Some ''zhihu''\<rparr>]\<rparr>],
         new_titles = [\<lparr>sd_source_name = Some ''zhihu'',
                          sd_titles = Some [empty_item\<lparr>title := Some ''T''\<rparr>]\<rparr>],
         failed_ids = [], total_new_count = 1\<rparr>
        1 ''daily'' None None None None None ''keyword'' None None True)"
proof -
  let ?rd = "\<lparr>stats = [\<lparr>word = Some ''AI'', stat_count = Some 1,
                    titles = Some [empty_item\<lparr>title := Some ''T'',
                                              source_name := Some ''zhihu''\<rparr>]\<rparr>],
         new_titles = [\<lparr>sd_source_name = Some ''zhihu'',
                          sd_titles = Some [empty_item\<lparr>title := Some ''T''\<rparr>]\<rparr>],
         failed_ids = [], total_new_count = 1\<rparr>"
  have h1: "list_all (word_group_keys ''keyword'') (stats ?rd)"
    by (simp add: word_group_keys_def news_item_keys_def empty_item_def)
  have h2: "list_all new_source_keys (new_titles ?rd)"
    by (simp add: new_source_keys_def empty_item_def)
  have c: "\<not> raises (render_html_content example_env
        \<lparr>dt_year = 2025, dt_month = 1, dt_day = 7, dt_hour = 8, dt_minute = 0, dt_second = 0\<rparr>
        ?rd 1 ''daily'' None None None None None ''keyword'' None None True)"
    using h1 h2
    by (simp only: render_raises_only_on_subscripted_keys simp_thms)
  from h1 h2 c show ?thesis by (intro conjI)
qed

text \<open>
  Claim C8 as stated fails: a hot-list record without \<open>title\<close> raises \<open>KeyError\<close> at line
  903, and in keyword mode a hot-list record without \<open>source_name\<close> raises \<open>KeyError\<close> at
  line 851.
\<close>

theorem absent_title_or_source_name_raises:
  "render_html_content example_env
     \<lparr>dt_year = 2025, dt_month = 1, dt_day = 7, dt_hour = 8, dt_minute = 0, dt_second = 0\<rparr>
     \<lparr>stats = [\<lparr>word = Some ''AI'', stat_count = Some 1,
                 titles = Some [empty_item\<lparr>source_name := Some ''zhihu''\<rparr>]\<rparr>],
      new_titles = [], failed_ids = [], total_new_count = 0\<rparr>
     1 ''daily'' None None None None None ''keyword'' None None True
   = Inl (KeyError ''title'')
   \<and> render_html_content example_env
     \<lparr>dt_year = 2025, dt_month = 1, dt_day = 7, dt_hour = 8, dt_minute = 0, dt_second = 0\<rparr>
     \<lparr>stats = [\<lparr>word = Some ''AI'', stat_count = Some 1,
                 titles = Some [empty_item\<lparr>title := Some ''T''\<rparr>]\<rparr>],
      new_titles = [], failed_ids = [], total_new_count = 0\<rparr>
     1 ''daily'' None None None None None ''keyword'' None None True
   = Inl (KeyError ''source_name'')"
proof -
  have a: "render_news_item example_env ''keyword'' (j, empty_item\<lparr>source_name := Some ''zhihu''\<rparr>)
           = Inl (KeyError ''title'')" for j
    by (simp add: render_news_item_def stats_source_html_def err_bind_def subscript_def
        empty_item_def Let_def)
  have b: "render_news_item example_env ''keyword'' (j, empty_item\<lparr>title := Some ''T''\<rparr>)
           = Inl (KeyError ''source_name'')" for j
    by (simp add: render_news_item_def stats_source_html_def err_bind_def subscript_def
        empty_item_def Let_def)
  show ?thesis
    by (simp add: render_html_content_def render_stats_html_def render_word_group_def a b
        err_bind_def subscript_def Let_def)
qed

section \<open>Repeated rendering\<close>

lemma render_header_time:
  "strftime_md_hm a = strftime_md_hm b \<Longrightarrow>
     render_header env mode total_titles hot a = render_header env mode total_titles hot b"
  by (simp add: render_header_def)

text \<open>
  Claim C10, as amended. The page shows the time of its generation (lines 783-788): the value
  returned by \<open>get_time_func\<close> when one is given, the reading of \<open>datetime.now()\<close>
  otherwise, formatted as month-day hour:minute. With the same report data and the same
  arguments, two calls give the same page when a \<open>get_time_func\<close> returning the same value is
  given, or when the two clock readings have the same month, day, hour and minute; the clock
  enters the page in no other way.
\<close>

theorem render_twice_same_minute:
  assumes "get_time_func = None \<longrightarrow> strftime_md_hm now1 = strftime_md_hm now2"
  shows "render_html_content env now1 report_data total_titles mode update_info region_order
           get_time_func rss_items rss_new_items display_mode standalone_data ai show_new_section
       = render_html_content env now2 report_data total_titles mode update_info region_order
           get_time_func rss_items rss_new_items display_mode standalone_data ai show_new_section"
proof (cases get_time_func)
  case None
  then have "render_header env mode total_titles hot now1 = render_header env mode total_titles hot now2"
    for hot
    using assms by (intro render_header_time) simp
  then show ?thesis
    by (simp add: render_html_content_def None Let_def)
next
  case (Some t)
  then show ?thesis
    by (simp add: render_html_content_def Let_def)
qed

text \<open>
  The theorem at two clock readings within the same minute, 08:00:00 and 08:00:59 on 7 January.
\<close>

theorem render_twice_same_minute_witness:
  "strftime_md_hm \<lparr>dt_year = 2025, dt_month = 1, dt_day = 7, dt_hour = 8, dt_minute = 0,
                     dt_second = 0\<rparr>
     = strftime_md_hm \<lparr>dt_year = 2025, dt_month = 1, dt_day = 7, dt_hour = 8, dt_minute = 0,
                       dt_second = 59\<rparr>
   \<and> render_html_content example_env
        \<lparr>dt_year = 2025, dt_month = 1, dt_day = 7, dt_hour = 8, dt_minute = 0, dt_second = 0\<rparr>
        empty_report 0 ''daily'' None None None None None ''keyword'' None None True
     = render_html_content example_env
        \<lparr>dt_year = 2025, dt_month = 1, dt_day = 7, dt_hour = 8, dt_minute = 0, dt_second = 59\<rparr>
        empty_report 0 ''daily'' None None None None None ''keyword'' None None True"
proof -
  have same: "strftime_md_hm \<lparr>dt_year = 2025, dt_month = 1, dt_day = 7, dt_hour = 8,
                               dt_minute = 0, dt_second = 0\<rparr>
      = strftime_md_hm \<lparr>dt_year = 2025, dt_month = 1, dt_day = 7, dt_hour = 8, dt_minute = 0,
                         dt_second = 59\<rparr>"
    by (simp add: strftime_md_hm_def)
  then have h: "(None :: datetime option) = None \<longrightarrow>
      strftime_md_hm \<lparr>dt_year = 2025, dt_month = 1, dt_day = 7, dt_hour = 8, dt_minute = 0,
                       dt_second = 0\<rparr>
      = strftime_md_hm \<lparr>dt_year = 2025, dt_month = 1, dt_day = 7, dt_hour = 8, dt_minute = 0,
                         dt_second = 59\<rparr>"
    by (rule impI)
  from same render_twice_same_minute[OF h, of example_env empty_report 0 "''daily''" None None None
      None "''keyword''" None None True]
  show ?thesis by (intro conjI)
qed

text \<open>
  Claim C10 as stated fails: with no \<open>get_time_func\<close>, the same report data and the same
  arguments, a call at 08:00 and a call at 08:01 give two different pages.
\<close>

theorem render_twice_next_minute_differs:
  "render_html_content example_env
     \<lparr>dt_year = 2025, dt_month = 1, dt_day = 7, dt_hour = 8, dt_minute = 0, dt_second = 0\<rparr>
     empty_report 0 ''daily'' None None None None None ''keyword'' None None True
   \<noteq> render_html_content example_env
     \<lparr>dt_year = 2025, dt_month = 1, dt_day = 7, dt_hour = 8, dt_minute = 1, dt_second = 0\<rparr>
     empty_report 0 ''daily'' None None None None None ''keyword'' None None True"
proof -
  have h1: "hot_news_count (stats empty_report) = Inr 0"
    by (simp add: empty_report_def)
  have h2: "render_stats_html example_env ''keyword'' (stats empty_report) = Inr []"
    by (simp add: empty_report_def render_stats_html_def err_bind_def)
  have h3: "render_new_titles_html example_env True empty_report = Inr []"
    by (simp add: empty_report_def render_new_titles_html_def)
  have "strftime_md_hm
          \<lparr>dt_year = 2025, dt_month = 1, dt_day = 7, dt_hour = 8, dt_minute = 0, dt_second = 0\<rparr>
        \<noteq> strftime_md_hm
          \<lparr>dt_year = 2025, dt_month = 1, dt_day = 7, dt_hour = 8, dt_minute = 1, dt_second = 0\<rparr>"
    by (simp add: strftime_md_hm_def pad2_def digit_char_def)
  then show ?thesis
    unfolding render_html_content_parts[OF h1 h2 h3] render_header_def
    by simp
qed

end
